theory Spec2Isabelle
  imports Main "HOL-Library.AList"
begin

section \<open>Results and exceptions\<close>

text \<open>
  \<open>Result<T, E>\<close> of \<open>shared/core/Result\<close>: \<open>ok(v)\<close> or \<open>err(e)\<close>. An exception is the
  message of the \<open>Error\<close> thrown; a computation that may throw returns \<open>exn + 'a\<close>, with
  \<open>Inl\<close> for the exception.
\<close>

datatype ('e, 'a) Result = Ok 'a | Err 'e

type_synonym exn = string

fun isErr :: "('e, 'a) Result \<Rightarrow> bool" where
  "isErr (Err e) = True"
| "isErr (Ok v) = False"

fun isOk :: "('e, 'a) Result \<Rightarrow> bool" where
  "isOk (Ok v) = True"
| "isOk (Err e) = False"

section \<open>Value objects\<close>

text \<open>
  Identifiers and validated primitives wrap a string. A \<open>Date\<close> is its epoch time.
  A \<open>PublishedRecordId\<close> is the ledger coordinate \<open>{uri, cid}\<close> of a written record.
\<close>

type_synonym UniqueEntityID = string
type_synonym CuratorId = string
type_synonym Date = nat

datatype URI = URI (uri_value: string)

record PublishedRecordId =
  uri :: string
  cid :: string

text \<open>
  \<open>AnnotationValue\<close> and \<open>AnnotationField\<close> are used by \<open>Annotation.ts\<close> through
  their type tag only; the payload of a value is opaque structured data.
\<close>

record AnnotationValue =
  valueType :: string
  valuePayload :: string

record AnnotationField =
  fieldId :: UniqueEntityID
  fieldName :: string
  definitionType :: string

text \<open>
  Modelled from the spec: \<open>AnnotationValue.matchesFieldType\<close> is not among the sources.
  Sections 3 and 8: the value's type tag must equal its field's declared type tag.
\<close>

definition matchesFieldType :: "AnnotationValue \<Rightarrow> AnnotationField \<Rightarrow> bool" where
  "matchesFieldType v f = (valueType v = definitionType f)"

text \<open>
  Modelled from the spec: \<open>AnnotationValue.isSameType\<close> is not among the sources.
  Section 4.2: the new value's type is compared with the current value's type.
\<close>

definition isSameType :: "AnnotationValue \<Rightarrow> AnnotationValue \<Rightarrow> bool" where
  "isSameType v w = (valueType v = valueType w)"

section \<open>Annotation (Annotation.ts)\<close>

text \<open>
  The aggregate: its identity and its props. The four guarded props are present in every
  instance (the constructor is private and \<open>create\<close> guards them); the others stay optional.
\<close>

record Annotation =
  annotationId :: UniqueEntityID
  curatorId :: CuratorId
  url :: URI
  annotationField :: AnnotationField
  annotationValue :: AnnotationValue
  annotationTemplateIds :: "UniqueEntityID list option"
  annotationNote :: "string option"
  createdAt :: "Date option"
  publishedRecordId :: "PublishedRecordId option"

text \<open>
  The argument of \<open>create\<close> as the runtime sees it: any prop may be null or undefined.
\<close>

record AnnotationProps =
  props_curatorId :: "CuratorId option"
  props_url :: "URI option"
  props_annotationField :: "AnnotationField option"
  props_value :: "AnnotationValue option"
  props_annotationTemplateIds :: "UniqueEntityID list option"
  props_note :: "string option"
  props_createdAt :: "Date option"
  props_publishedRecordId :: "PublishedRecordId option"

definition annotationFieldId :: "Annotation \<Rightarrow> UniqueEntityID" where
  "annotationFieldId a = fieldId (annotationField a)"

definition updatePublishedRecordId :: "Annotation \<Rightarrow> PublishedRecordId \<Rightarrow> Annotation" where
  "updatePublishedRecordId a r = a\<lparr>publishedRecordId := Some r\<rparr>"

definition markAsPublished :: "Annotation \<Rightarrow> PublishedRecordId \<Rightarrow> Annotation" where
  "markAsPublished a r = a\<lparr>publishedRecordId := Some r\<rparr>"

datatype UpdateAnnotationError = InvalidValueTypeError

text \<open>\<open>updateValue\<close> returns its result and the annotation as the call leaves it.\<close>

definition updateValue ::
  "Annotation \<Rightarrow> AnnotationValue \<Rightarrow> (UpdateAnnotationError, unit) Result \<times> Annotation" where
  "updateValue a v =
     (if \<not> isSameType (annotationValue a) v then (Err InvalidValueTypeError, a)
      else (Ok (), a\<lparr>annotationValue := v\<rparr>))"

datatype AnnotationCreateError = MissingArgument string | ValueDoesNotMatchFieldType

text \<open>
  Modelled from the spec: \<open>Guard.againstNullOrUndefinedBulk\<close> is not among the sources.
  Section 4.2: the guard fails with a missing-argument error naming the first absent
  argument. An argument is given as (present, name).
\<close>

fun againstNullOrUndefinedBulk :: "(bool \<times> string) list \<Rightarrow> (string, unit) Result" where
  "againstNullOrUndefinedBulk [] = Ok ()"
| "againstNullOrUndefinedBulk ((present, argumentName) # args) =
     (if present then againstNullOrUndefinedBulk args else Err argumentName)"

text \<open>
  \<open>Annotation.create(props, id?)\<close>. The clock (\<open>new Date()\<close>) and the identity generated
  when no id is passed are arguments.
\<close>

definition Annotation_create ::
  "Date \<Rightarrow> UniqueEntityID \<Rightarrow> AnnotationProps \<Rightarrow> UniqueEntityID option
     \<Rightarrow> (AnnotationCreateError, Annotation) Result" where
  "Annotation_create now freshId props entityId =
     (case againstNullOrUndefinedBulk
             [(props_curatorId props \<noteq> None, ''curatorId''),
              (props_url props \<noteq> None, ''url''),
              (props_annotationField props \<noteq> None, ''annotationField''),
              (props_value props \<noteq> None, ''value'')] of
        Err argumentName \<Rightarrow> Err (MissingArgument argumentName)
      | Ok _ \<Rightarrow>
          (case (props_curatorId props, props_url props,
                 props_annotationField props, props_value props) of
             (Some c, Some u, Some f, Some v) \<Rightarrow>
               if \<not> matchesFieldType v f then Err ValueDoesNotMatchFieldType
               else Ok \<lparr>annotationId  = (case entityId of Some i \<Rightarrow> i | None \<Rightarrow> freshId),
                         curatorId = c, url = u, annotationField = f, annotationValue = v,
                         annotationTemplateIds =
                           (case props_annotationTemplateIds props of
                              Some ts \<Rightarrow> Some ts | None \<Rightarrow> Some []),
                         annotationNote = props_note props,
                         createdAt =
                           (case props_createdAt props of
                              Some d \<Rightarrow> Some d | None \<Rightarrow> Some now),
                         publishedRecordId = props_publishedRecordId props\<rparr>
           | _ \<Rightarrow> Err (MissingArgument ''curatorId'')))"
  \<comment> \<open>the last branch is never taken: the guard has found all four props present\<close>

section \<open>URI (URI.ts)\<close>

text \<open>\<open>s.startsWith(p)\<close>.\<close>

definition startsWith :: "string \<Rightarrow> string \<Rightarrow> bool" where
  "startsWith s p = (take (length p) s = p)"

text \<open>
  The regular expressions of the source use literals and one-or-more repetitions of a
  character class. \<open>rx_match\<close> matches a pattern at the start of a string, trying every
  length of each repetition; \<open>rx_test\<close> is \<open>RegExp.test\<close> for a pattern with no anchor:
  a match may start at any position and need not reach the end.
\<close>

datatype rx_item = Lit char | Plus "char \<Rightarrow> bool"

fun rx_match :: "rx_item list \<Rightarrow> string \<Rightarrow> bool" where
  "rx_match [] s = True"
| "rx_match (Lit c # r) [] = False"
| "rx_match (Lit c # r) (x # xs) = (if x = c then rx_match r xs else False)"
| "rx_match (Plus P # r) [] = False"
| "rx_match (Plus P # r) (x # xs) =
     (if P x then (if rx_match (Plus P # r) xs then True else rx_match r xs) else False)"

fun rx_test :: "rx_item list \<Rightarrow> string \<Rightarrow> bool" where
  "rx_test r [] = rx_match r []"
| "rx_test r (x # xs) = (if rx_match r (x # xs) then True else rx_test r xs)"

definition is_alnum :: "char \<Rightarrow> bool" where
  "is_alnum c =
     (let n = (of_char c :: nat)
      in (97 \<le> n \<and> n \<le> 122) \<or> (65 \<le> n \<and> n \<le> 90) \<or> (48 \<le> n \<and> n \<le> 57))"

text \<open>\<open>/at:\/\/[a-zA-Z0-9.-]+\/[a-zA-Z0-9.]+\/[a-zA-Z0-9]+/\<close>\<close>

definition at_uri_regex :: "rx_item list" where
  "at_uri_regex =
     map Lit ''at://''
     @ [Plus (\<lambda>c. is_alnum c \<or> c = CHR ''.'' \<or> c = CHR ''-''), Lit CHR ''/'',
        Plus (\<lambda>c. is_alnum c \<or> c = CHR ''.''), Lit CHR ''/'',
        Plus is_alnum]"

text \<open>
  The constructor. \<open>new URL(value)\<close> is the platform's URL parser: the predicate
  \<open>parsesAsURL\<close> says whether it returns (rather than throws).
\<close>

definition URI_new :: "(string \<Rightarrow> bool) \<Rightarrow> string \<Rightarrow> exn + URI" where
  "URI_new parsesAsURL v =
     (if parsesAsURL v then Inr (URI v)
      else if startsWith v ''at://'' then
        (if \<not> rx_test at_uri_regex v then Inl (''Invalid AT URI format: '' @ v)
         else Inr (URI v))
      else Inl (''Invalid URI format: '' @ v))"

text \<open>
  \<open>URI.create\<close>. The \<open>try\<close> block holds \<open>new URL(value)\<close> and \<open>return ok(new URI(value))\<close>,
  so an exception of either enters the \<open>catch\<close> block; an exception of the constructor
  inside the \<open>catch\<close> block leaves \<open>create\<close>.
\<close>

definition URI_create :: "(string \<Rightarrow> bool) \<Rightarrow> string \<Rightarrow> exn + (string, URI) Result" where
  "URI_create parsesAsURL v =
     (case (if parsesAsURL v then URI_new parsesAsURL v else Inl ''Invalid URL'') of
        Inr u \<Rightarrow> Inr (Ok u)
      | Inl _ \<Rightarrow>
          if startsWith v ''at://'' then
            (if \<not> rx_test at_uri_regex v then Inr (Err (''Invalid AT URI format: '' @ v))
             else (case URI_new parsesAsURL v of
                     Inl e \<Rightarrow> Inl e
                   | Inr u \<Rightarrow> Inr (Ok u)))
          else Inr (Err (''Invalid URI format: '' @ v)))"

section \<open>ATUri (ATUri.ts)\<close>

text \<open>
  \<open>s.split("/")\<close>: the segments between the separators, empty ones included; a string
  with no separator is one segment.
\<close>

fun split :: "char \<Rightarrow> string \<Rightarrow> string list" where
  "split d [] = [[]]"
| "split d (c # cs) =
     (if c = d then [] # split d cs
      else (case split d cs of
              w # ws \<Rightarrow> (c # w) # ws
            | [] \<Rightarrow> [[c]]))"

datatype DID = DID (did_toString: string)

record ATUri =
  atUri_value :: string
  did :: DID
  collection :: string
  rkey :: string

text \<open>
  The constructor; \<open>new DID(parts[2])\<close> is an argument (the class is not among the sources)
  and may throw.
\<close>

definition ATUri_new :: "(string \<Rightarrow> exn + DID) \<Rightarrow> string \<Rightarrow> exn + ATUri" where
  "ATUri_new DID_new u =
     (let parts = split CHR ''/'' u
      in if length parts \<noteq> 5 then Inl ''Invalid AT URI''
         else (case DID_new (parts ! 2) of
                 Inl e \<Rightarrow> Inl e
               | Inr d \<Rightarrow>
                   Inr \<lparr>atUri_value = u, did = d, collection = parts ! 3, rkey = parts ! 4\<rparr>))"

section \<open>AnnotationsFromTemplate (the batch aggregate)\<close>

text \<open>
  A template is an ordered list of fields, each flagged required or optional.
\<close>

record AnnotationTemplate =
  templateId :: UniqueEntityID
  templateCuratorId :: CuratorId
  templateName :: string
  annotationTemplateFields :: "(AnnotationField \<times> bool) list"

record AnnotationsFromTemplate =
  annotations :: "Annotation list"
  template :: AnnotationTemplate
  batchCuratorId :: CuratorId
  batchCreatedAt :: Date

datatype AnnotationsFromTemplateError =
    CuratorIdMismatch
  | DuplicateAnnotationField
  | MissingRequiredFields "UniqueEntityID list"

definition requiredFieldIds :: "AnnotationTemplate \<Rightarrow> UniqueEntityID list" where
  "requiredFieldIds t = map (\<lambda>(f, required). fieldId f) (filter snd (annotationTemplateFields t))"

text \<open>
  Modelled from the spec: \<open>AnnotationsFromTemplate.create\<close> is not among the sources (only
  its call in the use case is). Section 4.3: it validates, in order, (1) every annotation's
  curatorId equals the batch curatorId, (2) the field ids referenced by the annotations
  contain no duplicates, (3) every field marked required on the template has a corresponding
  annotation, else fails naming the missing fields; on success it returns the aggregate
  exposing the annotation list and the template.
\<close>

definition AnnotationsFromTemplate_create ::
  "Annotation list \<Rightarrow> AnnotationTemplate \<Rightarrow> CuratorId \<Rightarrow> Date
     \<Rightarrow> (AnnotationsFromTemplateError, AnnotationsFromTemplate) Result" where
  "AnnotationsFromTemplate_create anns t c d =
     (if \<not> list_all (\<lambda>a. curatorId a = c) anns then Err CuratorIdMismatch
      else if \<not> distinct (map annotationFieldId anns) then Err DuplicateAnnotationField
      else (let missing = filter (\<lambda>f. f \<notin> set (map annotationFieldId anns)) (requiredFieldIds t)
            in if missing \<noteq> [] then Err (MissingRequiredFields missing)
               else Ok \<lparr>annotations = anns, template = t, batchCuratorId = c,
                        batchCreatedAt = d\<rparr>))"

datatype MarkPublishedError = MissingPublishedRecordId

text \<open>
  A \<open>Map<string, PublishedRecordId>\<close> is an association list in insertion order with one
  entry per key: \<open>set\<close> is \<open>AList.update\<close>, \<open>get\<close> is \<open>map_of\<close>.

  Modelled from the spec: \<open>markAllAnnotationsAsPublished\<close> is not among the sources.
  Section 4.3: it requires the map to contain an entry for every annotation's id; if any is
  missing it fails without mutating any annotation; otherwise it calls each annotation's
  \<open>markAsPublished\<close> and returns success. The batch is returned as the call leaves it.
\<close>

definition markAllAnnotationsAsPublished ::
  "AnnotationsFromTemplate \<Rightarrow> (string \<times> PublishedRecordId) list
     \<Rightarrow> (MarkPublishedError, unit) Result \<times> AnnotationsFromTemplate" where
  "markAllAnnotationsAsPublished b idsByAnnotationId =
     (if list_ex (\<lambda>a. map_of idsByAnnotationId (annotationId a) = None) (annotations b)
      then (Err MissingPublishedRecordId, b)
      else (Ok (),
            b\<lparr>annotations :=
                 map (\<lambda>a. case map_of idsByAnnotationId (annotationId a) of
                             Some r \<Rightarrow> markAsPublished a r
                           | None \<Rightarrow> a)
                     (annotations b)\<rparr>))"

section \<open>ATProtoAnnotationsFromTemplatePublisher\<close>

text \<open>
  The ledger client: \<open>agent.com.atproto.repo.applyWrites(request)\<close> throws or returns
  \<open>result.data.results\<close>, which may be undefined. It is an argument of the publisher.
\<close>

datatype Write =
    CreateWrite string string string
  | DeleteWrite string string

record ApplyWritesRequest =
  repo :: string
  writes :: "Write list"
  validate :: bool

record WriteResult =
  result_type :: string
  result_uri :: string
  result_cid :: string

type_synonym Agent = "ApplyWritesRequest \<Rightarrow> exn + WriteResult list option"

type_synonym PublishedAnnotationsFromTemplateResult = "(string \<times> PublishedRecordId) list"

definition COLLECTION :: string where
  "COLLECTION = ''app.annos.annotation''"

text \<open>The loop of \<open>publish\<close> over \<open>i\<close>, with the map built so far.\<close>

function publish_loop ::
  "Annotation list \<Rightarrow> WriteResult list \<Rightarrow> nat \<Rightarrow> PublishedAnnotationsFromTemplateResult
     \<Rightarrow> (string, PublishedAnnotationsFromTemplateResult) Result" where
  "publish_loop anns createResults i publishedRecordIds =
     (if i < length anns then
        (if \<not> i < length createResults
            \<or> result_type (createResults ! i) \<noteq> ''com.atproto.repo.applyWrites#createResult''
         then Err (''No create result found for annotation '' @ annotationId (anns ! i))
         else publish_loop anns createResults (Suc i)
                (AList.update (annotationId (anns ! i))
                   \<lparr>uri = result_uri (createResults ! i), cid = result_cid (createResults ! i)\<rparr>
                   publishedRecordIds))
      else Ok publishedRecordIds)"
  by pat_completeness auto
termination
  by (relation "measure (\<lambda>(anns, createResults, i, m). length anns - i)") auto

declare publish_loop.simps [simp del]

text \<open>
  \<open>publish\<close> returns its result and the requests sent to the ledger, in order.
  \<open>AnnotationsFromTemplateMapper.toCreateOperations\<close> is an argument (the mapper is not
  among the sources) and may throw.
\<close>

definition publish ::
  "Agent \<Rightarrow> (AnnotationsFromTemplate \<Rightarrow> string \<Rightarrow> exn + Write list) \<Rightarrow> AnnotationsFromTemplate
     \<Rightarrow> (string, PublishedAnnotationsFromTemplateResult) Result \<times> ApplyWritesRequest list" where
  "publish applyWrites toCreateOperations annotationsFromTemplate =
     (let anns = annotations annotationsFromTemplate
      in case (case anns of [] \<Rightarrow> None | a # _ \<Rightarrow> Some (curatorId a)) of
           None \<Rightarrow> (Err ''No curator DID found in annotations'', [])
         | Some curatorDid \<Rightarrow>
             if curatorDid = [] then (Err ''No curator DID found in annotations'', [])
             else (case toCreateOperations annotationsFromTemplate COLLECTION of
                     Inl e \<Rightarrow> (Err e, [])
                   | Inr ws \<Rightarrow>
                       (let request = \<lparr>repo = curatorDid, writes = ws, validate = False\<rparr>
                        in case applyWrites request of
                             Inl e \<Rightarrow> (Err e, [request])
                           | Inr results \<Rightarrow>
                               (publish_loop anns
                                  (case results of None \<Rightarrow> [] | Some rs \<Rightarrow> rs) 0 [],
                                [request]))))"

text \<open>
  Modelled from the spec: \<open>StrongRef\<close> is not among the sources. Section 6: a record is
  addressed by a record key derived from its uri; \<open>strongRef.atUri\<close> is the \<open>ATUri\<close> built
  from the uri of the published record.
\<close>

definition StrongRef_atUri :: "(string \<Rightarrow> exn + DID) \<Rightarrow> PublishedRecordId \<Rightarrow> exn + ATUri" where
  "StrongRef_atUri DID_new r = ATUri_new DID_new (uri r)"

text \<open>The first loop of \<open>unpublish\<close>: records grouped by repo, as (rkey, uri) pairs.\<close>

fun group_records ::
  "(string \<Rightarrow> exn + DID) \<Rightarrow> PublishedRecordId list \<Rightarrow> (string \<times> (string \<times> string) list) list
     \<Rightarrow> exn + (string \<times> (string \<times> string) list) list" where
  "group_records DID_new [] recordsByRepo = Inr recordsByRepo"
| "group_records DID_new (recordId # recordIds) recordsByRepo =
     (case StrongRef_atUri DID_new recordId of
        Inl e \<Rightarrow> Inl e
      | Inr atUri \<Rightarrow>
          (let r = did_toString (did atUri);
               m = (if map_of recordsByRepo r = None then AList.update r [] recordsByRepo
                    else recordsByRepo)
           in group_records DID_new recordIds
                (AList.map_entry r (\<lambda>records. records @ [(rkey atUri, uri recordId)]) m)))"

text \<open>The second loop: one delete request per repo, until one throws.\<close>

fun delete_loop ::
  "Agent \<Rightarrow> (string \<times> (string \<times> string) list) list \<Rightarrow> exn option \<times> ApplyWritesRequest list" where
  "delete_loop applyWrites [] = (None, [])"
| "delete_loop applyWrites ((r, records) # rest) =
     (let request = \<lparr>repo = r,
                      writes = map (\<lambda>record. DeleteWrite COLLECTION (fst record)) records,
                      validate = False\<rparr>
      in case applyWrites request of
           Inl e \<Rightarrow> (Some e, [request])
         | Inr _ \<Rightarrow>
             (case delete_loop applyWrites rest of
                (res, requests) \<Rightarrow> (res, request # requests)))"

definition unpublish ::
  "Agent \<Rightarrow> (string \<Rightarrow> exn + DID) \<Rightarrow> PublishedRecordId list
     \<Rightarrow> (string, unit) Result \<times> ApplyWritesRequest list" where
  "unpublish applyWrites DID_new recordIds =
     (case group_records DID_new recordIds [] of
        Inl e \<Rightarrow> (Err e, [])
      | Inr recordsByRepo \<Rightarrow>
          (case delete_loop applyWrites recordsByRepo of
             (None, requests) \<Rightarrow> (Ok (), requests)
           | (Some e, requests) \<Rightarrow> (Err e, requests)))"

section \<open>CreateAndPublishAnnotationsFromTemplateUseCase\<close>

record AnnotationInput =
  input_annotationFieldId :: string
  input_type :: string
  input_value :: string
  input_note :: "string option"

record CreateAndPublishAnnotationsFromTemplateDTO =
  dto_curatorId :: string
  dto_url :: string
  dto_templateId :: string
  dto_annotations :: "AnnotationInput list"

text \<open>
  The collaborators of the use case: the value-object factories, the three repositories and
  the publisher port are not among the sources and are taken as given. A repository or
  publisher call may throw. \<open>newId k\<close> is the identity generated for the annotation of the
  \<open>k\<close>-th input, \<open>now\<close> the clock.
\<close>

record Ports =
  CuratorId_create :: "string \<Rightarrow> (string, CuratorId) Result"
  AnnotationTemplateId_create :: "string \<Rightarrow> (string, UniqueEntityID) Result"
  AnnotationFieldId_create :: "string \<Rightarrow> (string, UniqueEntityID) Result"
  parsesAsURL :: "string \<Rightarrow> bool"
  templateRepository_findById :: "UniqueEntityID \<Rightarrow> exn + AnnotationTemplate option"
  fieldRepository_findById :: "UniqueEntityID \<Rightarrow> exn + AnnotationField option"
  AnnotationNote_create :: "string \<Rightarrow> exn + string"
  AnnotationValueFactory_create :: "string \<Rightarrow> string \<Rightarrow> (string, AnnotationValue) Result"
  publisher_publish ::
    "AnnotationsFromTemplate \<Rightarrow> exn + (string, PublishedAnnotationsFromTemplateResult) Result"
  annotationRepository_save :: "Annotation \<Rightarrow> exn option"
  newId :: "nat \<Rightarrow> UniqueEntityID"
  now :: Date

text \<open>
  The errors of the use case. \<open>AnnotationCreationFailed\<close> and \<open>AnnotationPublishFailed\<close>
  carry the cause that the source renders into their message.
\<close>

datatype CreationFailure =
    InvalidCommonProperties
  | InvalidAnnotationFieldId
  | AnnotationFieldNotFound string
  | TypeMismatch string string
  | InvalidAnnotationValue string
  | AnnotationError AnnotationCreateError
  | TemplateRequirements AnnotationsFromTemplateError

datatype PublishFailure = PublisherError string | MarkPublishedFailed MarkPublishedError

datatype UseCaseError =
    TemplateNotFound string
  | AnnotationCreationFailed CreationFailure
  | AnnotationPublishFailed string PublishFailure
  | AnnotationSaveFailed string string
  | UnexpectedError exn

text \<open>The calls that reach the ledger or the store: the side effects of a run.\<close>

datatype Effect = Publish AnnotationsFromTemplate | Save Annotation

text \<open>
  The body of the loop over \<open>request.annotations\<close>. An exception thrown here is caught by
  the \<open>try\<close> of \<open>execute\<close>, which returns \<open>UnexpectedError\<close>.
\<close>

definition build_annotation ::
  "Ports \<Rightarrow> CuratorId \<Rightarrow> URI \<Rightarrow> UniqueEntityID \<Rightarrow> nat \<Rightarrow> AnnotationInput
     \<Rightarrow> (UseCaseError, Annotation) Result" where
  "build_annotation P c u tid k annotationInput =
     (case AnnotationFieldId_create P (input_annotationFieldId annotationInput) of
        Err _ \<Rightarrow> Err (AnnotationCreationFailed InvalidAnnotationFieldId)
      | Ok fid \<Rightarrow>
     (case fieldRepository_findById P fid of
        Inl e \<Rightarrow> Err (UnexpectedError e)
      | Inr None \<Rightarrow>
          Err (AnnotationCreationFailed
                 (AnnotationFieldNotFound (input_annotationFieldId annotationInput)))
      | Inr (Some field) \<Rightarrow>
          if definitionType field \<noteq> input_type annotationInput
          then Err (AnnotationCreationFailed
                      (TypeMismatch (definitionType field) (input_type annotationInput)))
          else
     (case (case input_note annotationInput of
              None \<Rightarrow> Inr None
            | Some n \<Rightarrow> if n = [] then Inr None else map_sum id Some (AnnotationNote_create P n)) of
        Inl e \<Rightarrow> Err (UnexpectedError e)
      | Inr note \<Rightarrow>
     (case AnnotationValueFactory_create P (definitionType field) (input_value annotationInput) of
        Err message \<Rightarrow> Err (AnnotationCreationFailed (InvalidAnnotationValue message))
      | Ok v \<Rightarrow>
     (case Annotation_create (now P) (newId P k)
             \<lparr>props_curatorId = Some c, props_url = Some u,
              props_annotationField = Some field, props_value = Some v,
              props_annotationTemplateIds = Some [tid], props_note = note,
              props_createdAt = None, props_publishedRecordId = None\<rparr> None of
        Err e \<Rightarrow> Err (AnnotationCreationFailed (AnnotationError e))
      | Ok annotation \<Rightarrow> Ok annotation)))))"

fun build_annotations ::
  "Ports \<Rightarrow> CuratorId \<Rightarrow> URI \<Rightarrow> UniqueEntityID \<Rightarrow> nat \<Rightarrow> AnnotationInput list
     \<Rightarrow> Annotation list \<Rightarrow> (UseCaseError, Annotation list) Result" where
  "build_annotations P c u tid k [] anns = Ok anns"
| "build_annotations P c u tid k (annotationInput # inputs) anns =
     (case build_annotation P c u tid k annotationInput of
        Err e \<Rightarrow> Err e
      | Ok annotation \<Rightarrow> build_annotations P c u tid (Suc k) inputs (anns @ [annotation]))"

text \<open>The loop saving every annotation, until one save throws.\<close>

fun save_all :: "Ports \<Rightarrow> Annotation list \<Rightarrow> exn option \<times> Effect list" where
  "save_all P [] = (None, [])"
| "save_all P (annotation # anns) =
     (case annotationRepository_save P annotation of
        Some e \<Rightarrow> (Some e, [Save annotation])
      | None \<Rightarrow> (case save_all P anns of (res, effects) \<Rightarrow> (res, Save annotation # effects)))"

text \<open>\<open>execute\<close> returns its response and the side effects of the run, in order.\<close>

definition execute ::
  "Ports \<Rightarrow> CreateAndPublishAnnotationsFromTemplateDTO
     \<Rightarrow> (UseCaseError, string list) Result \<times> Effect list" where
  "execute P request =
     (case URI_create (parsesAsURL P) (dto_url request) of
        Inl e \<Rightarrow> (Err (UnexpectedError e), [])
      | Inr urlOrError \<Rightarrow>
     (case (CuratorId_create P (dto_curatorId request), urlOrError,
            AnnotationTemplateId_create P (dto_templateId request)) of
        (Ok c, Ok u, Ok tid) \<Rightarrow>
          (case templateRepository_findById P tid of
             Inl e \<Rightarrow> (Err (UnexpectedError e), [])
           | Inr None \<Rightarrow> (Err (TemplateNotFound tid), [])
           | Inr (Some t) \<Rightarrow>
          (case build_annotations P c u tid 0 (dto_annotations request) [] of
             Err e \<Rightarrow> (Err e, [])
           | Ok anns \<Rightarrow>
          (case AnnotationsFromTemplate_create anns t c (now P) of
             Err e \<Rightarrow> (Err (AnnotationCreationFailed (TemplateRequirements e)), [])
           | Ok annotationsFromTemplate \<Rightarrow>
          (case publisher_publish P annotationsFromTemplate of
             Inl e \<Rightarrow> (Err (UnexpectedError e), [Publish annotationsFromTemplate])
           | Inr (Err message) \<Rightarrow>
               (Err (AnnotationPublishFailed ''batch'' (PublisherError message)),
                [Publish annotationsFromTemplate])
           | Inr (Ok publishedRecordIds) \<Rightarrow>
          (case markAllAnnotationsAsPublished annotationsFromTemplate publishedRecordIds of
             (Err e, _) \<Rightarrow>
               (Err (AnnotationPublishFailed ''batch'' (MarkPublishedFailed e)),
                [Publish annotationsFromTemplate])
           | (Ok _, marked) \<Rightarrow>
          (case save_all P (annotations marked) of
             (Some e, effects) \<Rightarrow>
               (Err (AnnotationSaveFailed ''batch'' e), Publish annotationsFromTemplate # effects)
           | (None, effects) \<Rightarrow>
               (Ok (map annotationId (annotations marked)),
                Publish annotationsFromTemplate # effects)))))))
      | _ \<Rightarrow> (Err (AnnotationCreationFailed InvalidCommonProperties), [])))"

section \<open>Example data\<close>

text \<open>
  The data of the use-case test: a template with a required rating field and an optional
  dyad field, in-memory repositories, and a publisher that answers every annotation with
  \<open>at://fake-did/app.annos.annotation/<id>\<close> and \<open>fake-cid-<id>\<close>.
\<close>

definition rating_field :: AnnotationField where
  "rating_field = \<lparr>fieldId = ''f1'', fieldName = ''Rating Field'', definitionType = ''rating''\<rparr>"

definition dyad_field :: AnnotationField where
  "dyad_field = \<lparr>fieldId = ''f2'', fieldName = ''Note Field'', definitionType = ''dyad''\<rparr>"

definition test_template :: AnnotationTemplate where
  "test_template =
     \<lparr>templateId = ''t1'', templateCuratorId = ''did:plc:curator123'',
      templateName = ''Test Template'',
      annotationTemplateFields = [(rating_field, True), (dyad_field, False)]\<rparr>"

definition rating_annotation :: Annotation where
  "rating_annotation =
     \<lparr>annotationId = ''a1'', curatorId = ''did:plc:curator123'',
      url = URI ''https://example.com/resource'', annotationField = rating_field,
      annotationValue = \<lparr>valueType = ''rating'', valuePayload = ''{rating:4}''\<rparr>,
      annotationTemplateIds = Some [''t1''], annotationNote = Some ''Good rating'',
      createdAt = Some 0, publishedRecordId = None\<rparr>"

definition dyad_annotation :: Annotation where
  "dyad_annotation =
     \<lparr>annotationId = ''a2'', curatorId = ''did:plc:curator123'',
      url = URI ''https://example.com/resource'', annotationField = dyad_field,
      annotationValue = \<lparr>valueType = ''dyad'', valuePayload = ''{value:0.7}''\<rparr>,
      annotationTemplateIds = Some [''t1''], annotationNote = None,
      createdAt = Some 0, publishedRecordId = None\<rparr>"

definition example_props :: AnnotationProps where
  "example_props =
     \<lparr>props_curatorId = Some ''did:plc:curator123'',
      props_url = Some (URI ''https://example.com/resource''),
      props_annotationField = Some rating_field,
      props_value = Some \<lparr>valueType = ''dyad'', valuePayload = ''{value:0.7}''\<rparr>,
      props_annotationTemplateIds = None, props_note = None, props_createdAt = None,
      props_publishedRecordId = None\<rparr>"

text \<open>The AT URI that the comment of \<open>ATUri.ts\<close> gives as the structure of a ledger URI.\<close>

definition documented_at_uri :: string where
  "documented_at_uri = ''at://did:plc:lehcqqkwzcwvjvw66uthu5oq/app.bsky.feed.post/3lnxh4zet5c2a''"

text \<open>A stand-in for the platform's URL parser that accepts web URLs only.\<close>

definition web_url_only :: "string \<Rightarrow> bool" where
  "web_url_only s = (startsWith s ''http://'' \<or> startsWith s ''https://'')"

definition test_batch :: AnnotationsFromTemplate where
  "test_batch =
     \<lparr>annotations = [rating_annotation, dyad_annotation], template = test_template,
      batchCuratorId = ''did:plc:curator123'', batchCreatedAt = 0\<rparr>"

definition fake_record :: "string \<Rightarrow> PublishedRecordId" where
  "fake_record i = \<lparr>uri = ''at://fake-did/app.annos.annotation/'' @ i, cid = ''fake-cid-'' @ i\<rparr>"

text \<open>The published-record identifier built from a result of the ledger.\<close>

definition recordIdOf :: "WriteResult \<Rightarrow> PublishedRecordId" where
  "recordIdOf r = \<lparr>uri = result_uri r, cid = result_cid r\<rparr>"

definition createResultOf :: "string \<Rightarrow> WriteResult" where
  "createResultOf i =
     \<lparr>result_type = ''com.atproto.repo.applyWrites#createResult'',
      result_uri = ''at://fake-did/app.annos.annotation/'' @ i, result_cid = ''fake-cid-'' @ i\<rparr>"

definition fake_mapper :: "AnnotationsFromTemplate \<Rightarrow> string \<Rightarrow> exn + Write list" where
  "fake_mapper b c =
     Inr (map (\<lambda>a. CreateWrite c (annotationId a) (valuePayload (annotationValue a)))
            (annotations b))"

text \<open>A ledger that answers every request with two create results.\<close>

definition two_results_agent :: Agent where
  "two_results_agent request = Inr (Some [createResultOf ''a1'', createResultOf ''a2''])"

definition single_batch :: AnnotationsFromTemplate where
  "single_batch =
     \<lparr>annotations = [rating_annotation], template = test_template,
      batchCuratorId = ''did:plc:curator123'', batchCreatedAt = 0\<rparr>"

text \<open>A ledger that confirms every create of a request, in order.\<close>

definition fake_agent :: Agent where
  "fake_agent request =
     Inr (Some (map (\<lambda>w. case w of
                            CreateWrite c k v \<Rightarrow> createResultOf k
                          | DeleteWrite c k \<Rightarrow>
                              \<lparr>result_type = ''com.atproto.repo.applyWrites#deleteResult'',
                               result_uri = [], result_cid = []\<rparr>)
                  (writes request)))"

definition empty_batch :: AnnotationsFromTemplate where
  "empty_batch =
     \<lparr>annotations = [], template = test_template,
      batchCuratorId = ''did:plc:curator123'', batchCreatedAt = 0\<rparr>"

text \<open>A \<open>DID\<close> constructor that accepts every string.\<close>

definition any_DID :: "string \<Rightarrow> exn + DID" where
  "any_DID s = Inr (DID s)"

text \<open>A record whose uri has four segments: the record key is missing.\<close>

definition short_record :: PublishedRecordId where
  "short_record = \<lparr>uri = ''at://fake-did/app.annos.annotation'', cid = ''fake-cid''\<rparr>"

text \<open>
  The collaborators of the use-case test: in-memory repositories holding the template and
  its two fields, factories that accept every non-empty string, and the fake publisher.
\<close>

definition test_ports :: Ports where
  "test_ports =
     \<lparr>CuratorId_create = (\<lambda>s. if s = [] then Err ''Invalid curator id'' else Ok s),
      AnnotationTemplateId_create = Ok,
      AnnotationFieldId_create = Ok,
      parsesAsURL = web_url_only,
      templateRepository_findById = (\<lambda>i. Inr (if i = ''t1'' then Some test_template else None)),
      fieldRepository_findById =
        (\<lambda>i. Inr (if i = ''f1'' then Some rating_field
                   else if i = ''f2'' then Some dyad_field else None)),
      AnnotationNote_create = Inr,
      AnnotationValueFactory_create = (\<lambda>t payload. Ok \<lparr>valueType = t, valuePayload = payload\<rparr>),
      publisher_publish =
        (\<lambda>b. Inr (Ok (map (\<lambda>a. (annotationId a, fake_record (annotationId a))) (annotations b)))),
      annotationRepository_save = (\<lambda>a. None),
      newId = (\<lambda>k. if k = 0 then ''a1'' else if k = 1 then ''a2'' else replicate k CHR ''a''),
      now = 0\<rparr>"

definition rating_input :: AnnotationInput where
  "rating_input =
     \<lparr>input_annotationFieldId = ''f1'', input_type = ''rating'', input_value = ''{rating:4}'',
      input_note = Some ''Good rating''\<rparr>"

definition dyad_input :: AnnotationInput where
  "dyad_input =
     \<lparr>input_annotationFieldId = ''f2'', input_type = ''dyad'', input_value = ''{value:0.7}'',
      input_note = None\<rparr>"

definition test_dto :: CreateAndPublishAnnotationsFromTemplateDTO where
  "test_dto =
     \<lparr>dto_curatorId = ''did:plc:curator123'', dto_url = ''https://example.com/resource'',
      dto_templateId = ''t1'', dto_annotations = [rating_input, dyad_input]\<rparr>"

text \<open>
  The ways in which a run fails before the publisher is called: an invalid curatorId, url or
  templateId; a template that is not found; and, for some input, an invalid field id, a
  field that is not found, a declared type that differs from the field's type, a value
  payload that the factory rejects, or a value that \<open>Annotation.create\<close> rejects; and a
  batch that \<open>AnnotationsFromTemplate.create\<close> rejects.
\<close>

definition invalid_common_properties ::
  "Ports \<Rightarrow> CreateAndPublishAnnotationsFromTemplateDTO \<Rightarrow> bool" where
  "invalid_common_properties P request \<longleftrightarrow>
     isErr (CuratorId_create P (dto_curatorId request)) \<or>
     (\<exists>message. URI_create (parsesAsURL P) (dto_url request) = Inr (Err message)) \<or>
     isErr (AnnotationTemplateId_create P (dto_templateId request))"

definition template_not_found ::
  "Ports \<Rightarrow> CreateAndPublishAnnotationsFromTemplateDTO \<Rightarrow> bool" where
  "template_not_found P request \<longleftrightarrow>
     (\<exists>tid. AnnotationTemplateId_create P (dto_templateId request) = Ok tid \<and>
            templateRepository_findById P tid = Inr None)"

definition input_rejected :: "Ports \<Rightarrow> AnnotationInput \<Rightarrow> bool" where
  "input_rejected P annotationInput \<longleftrightarrow>
     isErr (AnnotationFieldId_create P (input_annotationFieldId annotationInput)) \<or>
     (\<exists>fid. AnnotationFieldId_create P (input_annotationFieldId annotationInput) = Ok fid \<and>
        (fieldRepository_findById P fid = Inr None \<or>
         (\<exists>field. fieldRepository_findById P fid = Inr (Some field) \<and>
            (definitionType field \<noteq> input_type annotationInput \<or>
             isErr (AnnotationValueFactory_create P (definitionType field)
                      (input_value annotationInput)) \<or>
             (\<exists>v. AnnotationValueFactory_create P (definitionType field)
                     (input_value annotationInput) = Ok v \<and>
                  \<not> matchesFieldType v field)))))"

definition batch_rejected ::
  "Ports \<Rightarrow> CreateAndPublishAnnotationsFromTemplateDTO \<Rightarrow> bool" where
  "batch_rejected P request \<longleftrightarrow>
     (\<exists>c u tid t anns e.
        CuratorId_create P (dto_curatorId request) = Ok c \<and>
        URI_create (parsesAsURL P) (dto_url request) = Inr (Ok u) \<and>
        AnnotationTemplateId_create P (dto_templateId request) = Ok tid \<and>
        templateRepository_findById P tid = Inr (Some t) \<and>
        build_annotations P c u tid 0 (dto_annotations request) [] = Ok anns \<and>
        AnnotationsFromTemplate_create anns t c (now P) = Err e)"

definition fails_before_publish ::
  "Ports \<Rightarrow> CreateAndPublishAnnotationsFromTemplateDTO \<Rightarrow> bool" where
  "fails_before_publish P request \<longleftrightarrow>
     invalid_common_properties P request \<or>
     template_not_found P request \<or>
     (\<exists>annotationInput \<in> set (dto_annotations request). input_rejected P annotationInput) \<or>
     batch_rejected P request"

text \<open>
  What the grouping of \<open>unpublish\<close> is expected to produce, stated from the records alone:
  the repo and the record key of a record are the did and the rkey of the \<open>ATUri\<close> of its
  uri; the repos are taken in the order of their first appearance; and there is one delete
  request per repo, carrying one delete per record of that repo, in the order of the
  records.
\<close>

definition recordRepo :: "(string \<Rightarrow> exn + DID) \<Rightarrow> PublishedRecordId \<Rightarrow> string" where
  "recordRepo DID_new r =
     (case StrongRef_atUri DID_new r of Inr a \<Rightarrow> did_toString (did a) | Inl e \<Rightarrow> [])"

definition recordRkey :: "(string \<Rightarrow> exn + DID) \<Rightarrow> PublishedRecordId \<Rightarrow> string" where
  "recordRkey DID_new r =
     (case StrongRef_atUri DID_new r of Inr a \<Rightarrow> rkey a | Inl e \<Rightarrow> [])"

definition reposInOrder :: "string list \<Rightarrow> string list" where
  "reposInOrder rs = rev (remdups (rev rs))"

definition expected_delete_requests ::
  "(string \<Rightarrow> exn + DID) \<Rightarrow> PublishedRecordId list \<Rightarrow> ApplyWritesRequest list" where
  "expected_delete_requests DID_new recordIds =
     map (\<lambda>r. \<lparr>repo = r,
                writes = map (\<lambda>recordId. DeleteWrite COLLECTION (recordRkey DID_new recordId))
                           (filter (\<lambda>recordId. recordRepo DID_new recordId = r) recordIds),
                validate = False\<rparr>)
         (reposInOrder (map (recordRepo DID_new) recordIds))"

text \<open>Records of two repos, the first repo appearing again after the second.\<close>

definition two_repo_records :: "PublishedRecordId list" where
  "two_repo_records =
     [\<lparr>uri = ''at://did:plc:alice/app.annos.annotation/k1'', cid = ''c1''\<rparr>,
      \<lparr>uri = ''at://did:plc:bob/app.annos.annotation/k2'', cid = ''c2''\<rparr>,
      \<lparr>uri = ''at://did:plc:alice/app.annos.annotation/k3'', cid = ''c3''\<rparr>]"

text \<open>A ledger that refuses every write to the repo of bob.\<close>

definition bob_refusing_agent :: Agent where
  "bob_refusing_agent request =
     (if repo request = ''did:plc:bob'' then Inl ''Could not find repo'' else Inr (Some []))"

section \<open>Properties of Annotation\<close>

text \<open>
  C5. When curatorId, url, annotationField and value are all present, \<open>Annotation.create\<close>
  fails if and only if the value's type differs from the declared type of the field, and
  then with the type-mismatch error. When one of the four is absent, it fails with the
  missing-argument error naming the first absent one, in the order curatorId, url,
  annotationField, value.
\<close>

theorem Annotation_create_fails_iff:
  "(props_curatorId props = Some c \<and> props_url props = Some u \<and>
    props_annotationField props = Some f \<and> props_value props = Some v \<longrightarrow>
      (isErr (Annotation_create clock freshId props entityId)
         \<longleftrightarrow> valueType v \<noteq> definitionType f) \<and>
      (valueType v \<noteq> definitionType f \<longrightarrow>
         Annotation_create clock freshId props entityId = Err ValueDoesNotMatchFieldType)) \<and>
   (props_curatorId props = None \<longrightarrow>
      Annotation_create clock freshId props entityId = Err (MissingArgument ''curatorId'')) \<and>
   (props_curatorId props \<noteq> None \<and> props_url props = None \<longrightarrow>
      Annotation_create clock freshId props entityId = Err (MissingArgument ''url'')) \<and>
   (props_curatorId props \<noteq> None \<and> props_url props \<noteq> None \<and>
    props_annotationField props = None \<longrightarrow>
      Annotation_create clock freshId props entityId = Err (MissingArgument ''annotationField'')) \<and>
   (props_curatorId props \<noteq> None \<and> props_url props \<noteq> None \<and>
    props_annotationField props \<noteq> None \<and> props_value props = None \<longrightarrow>
      Annotation_create clock freshId props entityId = Err (MissingArgument ''value''))"
  by (auto simp: Annotation_create_def matchesFieldType_def)

theorem Annotation_create_fails_iff_witness:
  "Annotation_create 0 ''a1'' example_props None = Err ValueDoesNotMatchFieldType \<and>
   Annotation_create 0 ''a1'' (example_props\<lparr>props_url := None\<rparr>) None
     = Err (MissingArgument ''url'') \<and>
   \<not> isErr (Annotation_create 0 ''a1''
      (example_props\<lparr>props_value := Some \<lparr>valueType = ''rating'', valuePayload = ''4''\<rparr>\<rparr>) None)"
  using Annotation_create_fails_iff [of example_props "''did:plc:curator123''"
          "URI ''https://example.com/resource''" rating_field
          "\<lparr>valueType = ''dyad'', valuePayload = ''{value:0.7}''\<rparr>" 0 "''a1''" None]
        Annotation_create_fails_iff [of "example_props\<lparr>props_url := None\<rparr>" _ _ _ _ 0 "''a1''" None]
        Annotation_create_fails_iff [of
          "example_props\<lparr>props_value := Some \<lparr>valueType = ''rating'', valuePayload = ''4''\<rparr>\<rparr>"
          "''did:plc:curator123''" "URI ''https://example.com/resource''" rating_field
          "\<lparr>valueType = ''rating'', valuePayload = ''4''\<rparr>" 0 "''a1''" None]
  by (simp add: example_props_def rating_field_def)

text \<open>
  C7. \<open>updateValue\<close> fails with \<open>InvalidValueTypeError\<close> if and only if the type of the new
  value differs from the type of the current value, and then leaves the annotation as it
  was; otherwise it succeeds and the new value is stored. In both cases curatorId, url,
  annotationField, note, annotationTemplateIds, createdAt, publishedRecordId and the
  identity are unchanged.
\<close>

theorem updateValue_frame:
  "(fst (updateValue a v) = Err InvalidValueTypeError
      \<longleftrightarrow> valueType v \<noteq> valueType (annotationValue a)) \<and>
   (valueType v \<noteq> valueType (annotationValue a) \<longrightarrow> snd (updateValue a v) = a) \<and>
   (valueType v = valueType (annotationValue a) \<longrightarrow>
      fst (updateValue a v) = Ok () \<and>
      annotationValue (snd (updateValue a v)) = v) \<and>
   curatorId (snd (updateValue a v)) = curatorId a \<and>
   url (snd (updateValue a v)) = url a \<and>
   annotationField (snd (updateValue a v)) = annotationField a \<and>
   annotationNote (snd (updateValue a v)) = annotationNote a \<and>
   annotationTemplateIds (snd (updateValue a v)) = annotationTemplateIds a \<and>
   createdAt (snd (updateValue a v)) = createdAt a \<and>
   publishedRecordId (snd (updateValue a v)) = publishedRecordId a \<and>
   annotationId (snd (updateValue a v)) = annotationId a"
  by (simp add: updateValue_def isSameType_def)

theorem updateValue_frame_witness:
  "updateValue rating_annotation \<lparr>valueType = ''dyad'', valuePayload = ''{value:0.7}''\<rparr>
     = (Err InvalidValueTypeError, rating_annotation) \<and>
   updateValue rating_annotation \<lparr>valueType = ''rating'', valuePayload = ''{rating:2}''\<rparr>
     = (Ok (), rating_annotation
          \<lparr>annotationValue := \<lparr>valueType = ''rating'', valuePayload = ''{rating:2}''\<rparr>\<rparr>)"
  using updateValue_frame [of rating_annotation
          "\<lparr>valueType = ''dyad'', valuePayload = ''{value:0.7}''\<rparr>"]
        updateValue_frame [of rating_annotation
          "\<lparr>valueType = ''rating'', valuePayload = ''{rating:2}''\<rparr>"]
  by (simp add: updateValue_def isSameType_def rating_annotation_def)

section \<open>Properties of URI\<close>

text \<open>\<open>URI.create\<close> never throws, and it accepts exactly what one of its two checks accepts.\<close>

lemma URI_create_never_throws: "URI_create p v \<noteq> Inl e"
  by (auto simp: URI_create_def URI_new_def split: sum.splits)

lemma URI_create_Ok_iff:
  "(\<exists>u. URI_create p v = Inr (Ok u))
     \<longleftrightarrow> p v \<or> (startsWith v ''at://'' \<and> rx_test at_uri_regex v)"
  by (auto simp: URI_create_def URI_new_def split: sum.splits)

lemma URI_create_Ok_value: "URI_create p v = Inr (Ok u) \<Longrightarrow> u = URI v"
  by (auto simp: URI_create_def URI_new_def split: sum.splits if_splits)

text \<open>
  The pattern has no anchor: a string that starts with \<open>at://\<close> passes the second check as
  soon as the pattern matches somewhere inside it.
\<close>

lemma URI_create_unanchored_example:
  "URI_create web_url_only ''at://did:plc:x/at://a/b/c''
     = Inr (Ok (URI ''at://did:plc:x/at://a/b/c''))"
  by (simp add: URI_create_def URI_new_def web_url_only_def startsWith_def at_uri_regex_def
        is_alnum_def)

text \<open>
  C8. The ledger URI \<open>at://did:plc:lehcqqkwzcwvjvw66uthu5oq/app.bsky.feed.post/3lnxh4zet5c2a\<close>
  has the form scheme://authority/collection-name/record-key. The platform's URL parser
  rejects it (the text after the colon of the authority is not a port number), and then
  \<open>URI.create\<close> returns the format error for it: the character class of the authority
  in the pattern has no colon. The \<open>ATUri\<close> constructor takes the same string apart into
  its did, collection and record key.
\<close>

theorem URI_create_rejects_documented_at_uri:
  "\<not> urlParser documented_at_uri \<Longrightarrow>
     split CHR ''/'' documented_at_uri
       = [''at:'', [], ''did:plc:lehcqqkwzcwvjvw66uthu5oq'', ''app.bsky.feed.post'',
          ''3lnxh4zet5c2a''] \<and>
     ATUri_new any_DID documented_at_uri
       = Inr \<lparr>atUri_value = documented_at_uri, did = DID ''did:plc:lehcqqkwzcwvjvw66uthu5oq'',
              collection = ''app.bsky.feed.post'', rkey = ''3lnxh4zet5c2a''\<rparr> \<and>
     URI_create urlParser documented_at_uri
       = Inr (Err (''Invalid AT URI format: '' @ documented_at_uri))"
  by (simp add: URI_create_def startsWith_def documented_at_uri_def at_uri_regex_def
        is_alnum_def ATUri_new_def any_DID_def)

theorem URI_create_rejects_documented_at_uri_witness:
  "\<not> web_url_only documented_at_uri \<and>
   URI_create web_url_only documented_at_uri
     = Inr (Err (''Invalid AT URI format: '' @ documented_at_uri))"
  using URI_create_rejects_documented_at_uri [of web_url_only]
  by (simp add: web_url_only_def startsWith_def documented_at_uri_def)

section \<open>Properties of AnnotationsFromTemplate\<close>

lemma missing_required_set:
  "set (filter (\<lambda>f. f \<notin> set (map annotationFieldId anns)) (requiredFieldIds t))
     = {fieldId f | f. (f, True) \<in> set (annotationTemplateFields t) \<and>
                       fieldId f \<notin> annotationFieldId ` set anns}"
  by (auto simp: requiredFieldIds_def)

lemma required_covered_iff:
  "(\<forall>(f, required) \<in> set (annotationTemplateFields t).
       required \<longrightarrow> fieldId f \<in> annotationFieldId ` set anns)
   \<longleftrightarrow> filter (\<lambda>f. f \<notin> set (map annotationFieldId anns)) (requiredFieldIds t) = []"
proof -
  have "filter (\<lambda>f. f \<notin> set (map annotationFieldId anns)) (requiredFieldIds t) = []
        \<longleftrightarrow> {fieldId f | f. (f, True) \<in> set (annotationTemplateFields t) \<and>
                       fieldId f \<notin> annotationFieldId ` set anns} = {}"
    using missing_required_set [of anns t] by (metis set_empty)
  also have "\<dots> \<longleftrightarrow> (\<forall>f. (f, True) \<in> set (annotationTemplateFields t)
                        \<longrightarrow> fieldId f \<in> annotationFieldId ` set anns)"
    by blast
  also have "\<dots> \<longleftrightarrow> (\<forall>(f, required) \<in> set (annotationTemplateFields t).
       required \<longrightarrow> fieldId f \<in> annotationFieldId ` set anns)"
    by fastforce
  finally show ?thesis by simp
qed

text \<open>
  C1. \<open>AnnotationsFromTemplate.create\<close> succeeds if and only if every annotation's curatorId
  equals the batch curatorId, the field ids referenced by the annotations contain no
  duplicates, and every required field of the template is the field of some annotation.
  The checks run in that order: a curator mismatch is reported first, then a duplicate
  field, then the missing required fields, which the error lists. On success the aggregate
  holds the annotation list and the template.
\<close>

theorem AnnotationsFromTemplate_create_iff:
  "(isOk (AnnotationsFromTemplate_create anns t c d) \<longleftrightarrow>
      (\<forall>a \<in> set anns. curatorId a = c) \<and>
      distinct (map annotationFieldId anns) \<and>
      (\<forall>(f, required) \<in> set (annotationTemplateFields t).
         required \<longrightarrow> fieldId f \<in> annotationFieldId ` set anns)) \<and>
   ((\<exists>a \<in> set anns. curatorId a \<noteq> c) \<longrightarrow>
      AnnotationsFromTemplate_create anns t c d = Err CuratorIdMismatch) \<and>
   ((\<forall>a \<in> set anns. curatorId a = c) \<and> \<not> distinct (map annotationFieldId anns) \<longrightarrow>
      AnnotationsFromTemplate_create anns t c d = Err DuplicateAnnotationField) \<and>
   ((\<forall>a \<in> set anns. curatorId a = c) \<and> distinct (map annotationFieldId anns) \<and>
    \<not> (\<forall>(f, required) \<in> set (annotationTemplateFields t).
         required \<longrightarrow> fieldId f \<in> annotationFieldId ` set anns) \<longrightarrow>
      (\<exists>missing. AnnotationsFromTemplate_create anns t c d = Err (MissingRequiredFields missing) \<and>
         missing \<noteq> [] \<and>
         set missing = {fieldId f | f. (f, True) \<in> set (annotationTemplateFields t) \<and>
                                     fieldId f \<notin> annotationFieldId ` set anns})) \<and>
   (\<forall>b. AnnotationsFromTemplate_create anns t c d = Ok b \<longrightarrow>
      annotations b = anns \<and> template b = t)"
proof -
  define missing where
    "missing = filter (\<lambda>f. f \<notin> set (map annotationFieldId anns)) (requiredFieldIds t)"
  define covered where
    "covered \<longleftrightarrow> (\<forall>(f, required) \<in> set (annotationTemplateFields t).
         required \<longrightarrow> fieldId f \<in> annotationFieldId ` set anns)"
  define same where "same \<longleftrightarrow> (\<forall>a \<in> set anns. curatorId a = c)"
  have cov: "covered \<longleftrightarrow> missing = []"
    unfolding covered_def missing_def by (rule required_covered_iff)
  have mset: "set missing = {fieldId f | f. (f, True) \<in> set (annotationTemplateFields t) \<and>
                                     fieldId f \<notin> annotationFieldId ` set anns}"
    unfolding missing_def by (rule missing_required_set)
  have eq: "AnnotationsFromTemplate_create anns t c d =
     (if \<not> same then Err CuratorIdMismatch
      else if \<not> distinct (map annotationFieldId anns) then Err DuplicateAnnotationField
      else if missing \<noteq> [] then Err (MissingRequiredFields missing)
      else Ok \<lparr>annotations = anns, template = t, batchCuratorId = c, batchCreatedAt = d\<rparr>)"
    unfolding AnnotationsFromTemplate_create_def Let_def missing_def same_def list_all_iff
    by (rule refl)
  have same_not: "(\<exists>a \<in> set anns. curatorId a \<noteq> c) \<longleftrightarrow> \<not> same"
    unfolding same_def by blast
  show ?thesis
    unfolding same_not same_def [symmetric] covered_def [symmetric] mset [symmetric] eq
    using cov by auto
qed

theorem AnnotationsFromTemplate_create_iff_witness:
  "isOk (AnnotationsFromTemplate_create [rating_annotation, dyad_annotation] test_template
           ''did:plc:curator123'' 0) \<and>
   AnnotationsFromTemplate_create [rating_annotation, dyad_annotation] test_template
           ''did:plc:other'' 0 = Err CuratorIdMismatch \<and>
   AnnotationsFromTemplate_create [rating_annotation, rating_annotation] test_template
           ''did:plc:curator123'' 0 = Err DuplicateAnnotationField \<and>
   AnnotationsFromTemplate_create [dyad_annotation] test_template
           ''did:plc:curator123'' 0 = Err (MissingRequiredFields [''f1''])"
  using AnnotationsFromTemplate_create_iff [of "[rating_annotation, dyad_annotation]"
          test_template "''did:plc:curator123''" 0]
        AnnotationsFromTemplate_create_iff [of "[rating_annotation, dyad_annotation]"
          test_template "''did:plc:other''" 0]
        AnnotationsFromTemplate_create_iff [of "[rating_annotation, rating_annotation]"
          test_template "''did:plc:curator123''" 0]
        AnnotationsFromTemplate_create_iff [of "[dyad_annotation]"
          test_template "''did:plc:curator123''" 0]
  by (simp add: AnnotationsFromTemplate_create_def requiredFieldIds_def annotationFieldId_def
        test_template_def rating_annotation_def dyad_annotation_def rating_field_def
        dyad_field_def)

text \<open>
  C3. \<open>markAllAnnotationsAsPublished\<close> is all-or-nothing. If the map has no entry for the id
  of some annotation of the batch, it fails and the batch, every annotation with its
  publishedRecordId included, is as before. If the map has an entry for every annotation's
  id, it succeeds and every annotation has gone through \<open>markAsPublished\<close> with its own entry;
  nothing else of the batch changes.
\<close>

theorem markAllAnnotationsAsPublished_all_or_nothing:
  "((\<exists>a \<in> set (annotations b). map_of ids (annotationId a) = None) \<longrightarrow>
      markAllAnnotationsAsPublished b ids = (Err MissingPublishedRecordId, b)) \<and>
   ((\<forall>a \<in> set (annotations b). map_of ids (annotationId a) \<noteq> None) \<longrightarrow>
      fst (markAllAnnotationsAsPublished b ids) = Ok () \<and>
      annotations (snd (markAllAnnotationsAsPublished b ids))
        = map (\<lambda>a. markAsPublished a (the (map_of ids (annotationId a)))) (annotations b) \<and>
      template (snd (markAllAnnotationsAsPublished b ids)) = template b \<and>
      batchCuratorId (snd (markAllAnnotationsAsPublished b ids)) = batchCuratorId b \<and>
      batchCreatedAt (snd (markAllAnnotationsAsPublished b ids)) = batchCreatedAt b)"
  by (auto simp: markAllAnnotationsAsPublished_def list_ex_iff split: option.splits)

theorem markAllAnnotationsAsPublished_all_or_nothing_witness:
  "markAllAnnotationsAsPublished test_batch [(''a1'', fake_record ''a1'')]
     = (Err MissingPublishedRecordId, test_batch) \<and>
   markAllAnnotationsAsPublished test_batch
       [(''a1'', fake_record ''a1''), (''a2'', fake_record ''a2'')]
     = (Ok (), test_batch\<lparr>annotations :=
          [rating_annotation\<lparr>publishedRecordId := Some (fake_record ''a1'')\<rparr>,
           dyad_annotation\<lparr>publishedRecordId := Some (fake_record ''a2'')\<rparr>]\<rparr>)"
  using markAllAnnotationsAsPublished_all_or_nothing [of test_batch "[(''a1'', fake_record ''a1'')]"]
        markAllAnnotationsAsPublished_all_or_nothing [of test_batch
          "[(''a1'', fake_record ''a1''), (''a2'', fake_record ''a2'')]"]
  by (simp add: markAllAnnotationsAsPublished_def markAsPublished_def test_batch_def
        rating_annotation_def dyad_annotation_def)


section \<open>Properties of the publisher\<close>

lemma update_fresh_append: "k \<notin> fst ` set m \<Longrightarrow> AList.update k v m = m @ [(k, v)]"
  by (induction m) auto

lemma publish_loop_done: "\<not> i < length anns \<Longrightarrow> publish_loop anns rs i m = Ok m"
  by (simp add: publish_loop.simps [of anns rs i m])

lemma publish_loop_step:
  "i < length anns \<Longrightarrow> i < length rs \<Longrightarrow>
   result_type (rs ! i) = ''com.atproto.repo.applyWrites#createResult'' \<Longrightarrow>
   publish_loop anns rs i m
     = publish_loop anns rs (Suc i)
         (AList.update (annotationId (anns ! i))
            \<lparr>uri = result_uri (rs ! i), cid = result_cid (rs ! i)\<rparr> m)"
  by (simp add: publish_loop.simps [of anns rs i m])

lemma publish_loop_isOk_iff:
  "isOk (publish_loop anns rs i m) \<longleftrightarrow>
     (\<forall>j. i \<le> j \<and> j < length anns \<longrightarrow>
          j < length rs \<and> result_type (rs ! j) = ''com.atproto.repo.applyWrites#createResult'')"
proof (induction anns rs i m rule: publish_loop.induct)
  case (1 anns rs i m)
  show ?case
  proof (cases "i < length anns")
    case False
    then show ?thesis by (auto simp: publish_loop.simps [of anns rs i m])
  next
    case True
    show ?thesis
    proof (cases "\<not> i < length rs
            \<or> result_type (rs ! i) \<noteq> ''com.atproto.repo.applyWrites#createResult''")
      case bad: True
      then have "publish_loop anns rs i m
                   = Err (''No create result found for annotation '' @ annotationId (anns ! i))"
        using True by (simp add: publish_loop.simps [of anns rs i m])
      moreover have "\<not> (\<forall>j. i \<le> j \<and> j < length anns \<longrightarrow>
          j < length rs \<and> result_type (rs ! j) = ''com.atproto.repo.applyWrites#createResult'')"
        using bad True by blast
      ultimately show ?thesis by simp
    next
      case good: False
      have step: "publish_loop anns rs i m
                = publish_loop anns rs (Suc i)
                    (AList.update (annotationId (anns ! i))
                       \<lparr>uri = result_uri (rs ! i), cid = result_cid (rs ! i)\<rparr> m)"
        using True good by (simp add: publish_loop.simps [of anns rs i m])
      have "(\<forall>j. i \<le> j \<and> j < length anns \<longrightarrow>
          j < length rs \<and> result_type (rs ! j) = ''com.atproto.repo.applyWrites#createResult'')
        \<longleftrightarrow> (\<forall>j. Suc i \<le> j \<and> j < length anns \<longrightarrow>
          j < length rs \<and> result_type (rs ! j) = ''com.atproto.repo.applyWrites#createResult'')"
        using good by (metis Suc_leI le_neq_implies_less Suc_leD)
      then show ?thesis
        using "1.IH" [OF True good] step by simp
    qed
  qed
qed

lemma publish_loop_result:
  "publish_loop anns rs i m = Ok m' \<Longrightarrow>
   distinct (map fst m @ map annotationId (drop i anns)) \<Longrightarrow>
   m' = m @ zip (map annotationId (drop i anns)) (map recordIdOf (drop i rs))"
proof (induction anns rs i m rule: publish_loop.induct)
  case (1 anns rs i m)
  show ?case
  proof (cases "i < length anns")
    case False
    then show ?thesis using "1.prems" by (simp add: publish_loop.simps [of anns rs i m])
  next
    case True
    have good: "\<not> (\<not> i < length rs
            \<or> result_type (rs ! i) \<noteq> ''com.atproto.repo.applyWrites#createResult'')"
      using "1.prems"(1) True by (auto simp: publish_loop.simps [of anns rs i m] split: if_splits)
    let ?k = "annotationId (anns ! i)"
    let ?v = "\<lparr>uri = result_uri (rs ! i), cid = result_cid (rs ! i)\<rparr>"
    have step: "publish_loop anns rs (Suc i) (AList.update ?k ?v m) = Ok m'"
      using "1.prems"(1) True good by (simp add: publish_loop.simps [of anns rs i m])
    have da: "drop i anns = anns ! i # drop (Suc i) anns"
      using True by (simp add: Cons_nth_drop_Suc)
    have dr: "drop i rs = rs ! i # drop (Suc i) rs"
      using good by (simp add: Cons_nth_drop_Suc)
    have fresh: "?k \<notin> fst ` set m"
      using "1.prems"(2) da by auto
    have upd: "AList.update ?k ?v m = m @ [(?k, ?v)]"
      using fresh by (rule update_fresh_append)
    have dist: "distinct (map fst (AList.update ?k ?v m) @ map annotationId (drop (Suc i) anns))"
      using "1.prems"(2) da upd by auto
    have "m' = AList.update ?k ?v m
                 @ zip (map annotationId (drop (Suc i) anns)) (map recordIdOf (drop (Suc i) rs))"
      using "1.IH" [OF True good step dist] .
    moreover have "?v = recordIdOf (rs ! i)"
      by (simp add: recordIdOf_def)
    ultimately show ?thesis
      using upd da dr by simp
  qed
qed

lemma publish_loop_keys:
  "publish_loop anns rs i m = Ok m' \<Longrightarrow>
   fst ` set m' = fst ` set m \<union> annotationId ` set (drop i anns)"
proof (induction anns rs i m rule: publish_loop.induct)
  case (1 anns rs i m)
  show ?case
  proof (cases "i < length anns")
    case False
    then show ?thesis using "1.prems" by (simp add: publish_loop.simps [of anns rs i m])
  next
    case True
    have good: "\<not> (\<not> i < length rs
            \<or> result_type (rs ! i) \<noteq> ''com.atproto.repo.applyWrites#createResult'')"
      using "1.prems"(1) True by (auto simp: publish_loop.simps [of anns rs i m] split: if_splits)
    let ?k = "annotationId (anns ! i)"
    let ?v = "\<lparr>uri = result_uri (rs ! i), cid = result_cid (rs ! i)\<rparr>"
    have step: "publish_loop anns rs (Suc i) (AList.update ?k ?v m) = Ok m'"
      using "1.prems"(1) True good by (simp add: publish_loop.simps [of anns rs i m])
    have da: "drop i anns = anns ! i # drop (Suc i) anns"
      using True by (simp add: Cons_nth_drop_Suc)
    have "fst ` set m' = fst ` set (AList.update ?k ?v m) \<union> annotationId ` set (drop (Suc i) anns)"
      using "1.IH" [OF True good step] .
    then show ?thesis
      using da by (simp add: AList.dom_update insert_commute) 
  qed
qed

text \<open>A successful \<open>publish\<close> has sent its request and got a response from the ledger.\<close>

lemma publish_Ok_has_response:
  assumes "fst (publish applyWrites toCreateOperations b) = Ok m"
  shows "annotations b \<noteq> [] \<and> curatorId (hd (annotations b)) \<noteq> [] \<and>
         (\<exists>ws results.
            toCreateOperations b COLLECTION = Inr ws \<and>
            applyWrites \<lparr>repo = curatorId (hd (annotations b)), writes = ws,
                         validate = False\<rparr> = Inr results)"
  using assms
  by (cases "annotations b")
     (auto simp: publish_def Let_def split: sum.splits if_splits)

text \<open>
  C2. Suppose the ledger answered the write request of \<open>publish\<close> for a batch of N
  annotations. Then \<open>publish\<close> succeeds if and only if the response has at least N results
  and each of the first N is a create confirmation; results beyond the N-th are not looked
  at. On success the map has exactly the annotation ids as keys, and when the annotation
  ids are pairwise distinct it has N entries in the order of the batch, the i-th being the
  i-th annotation id with the identifier built from the i-th result.
\<close>

theorem publish_positional:
  "toCreateOperations b COLLECTION = Inr ws \<Longrightarrow>
   annotations b \<noteq> [] \<Longrightarrow>
   curatorId (hd (annotations b)) \<noteq> [] \<Longrightarrow>
   applyWrites \<lparr>repo = curatorId (hd (annotations b)), writes = ws, validate = False\<rparr>
     = Inr results \<Longrightarrow>
   rs = (case results of None \<Rightarrow> [] | Some xs \<Rightarrow> xs) \<Longrightarrow>
   (isOk (fst (publish applyWrites toCreateOperations b)) \<longleftrightarrow>
      length (annotations b) \<le> length rs \<and>
      (\<forall>i < length (annotations b).
         result_type (rs ! i) = ''com.atproto.repo.applyWrites#createResult'')) \<and>
   (\<forall>m. fst (publish applyWrites toCreateOperations b) = Ok m \<longrightarrow>
      fst ` set m = annotationId ` set (annotations b) \<and>
      (distinct (map annotationId (annotations b)) \<longrightarrow>
         m = zip (map annotationId (annotations b)) (map recordIdOf rs) \<and>
         length m = length (annotations b) \<and>
         (\<forall>i < length (annotations b).
            m ! i = (annotationId (annotations b ! i), recordIdOf (rs ! i)))))"
proof -
  assume ops: "toCreateOperations b COLLECTION = Inr ws"
    and ne: "annotations b \<noteq> []"
    and did: "curatorId (hd (annotations b)) \<noteq> []"
    and resp: "applyWrites \<lparr>repo = curatorId (hd (annotations b)), writes = ws,
                            validate = False\<rparr> = Inr results"
    and rs: "rs = (case results of None \<Rightarrow> [] | Some xs \<Rightarrow> xs)"
  let ?anns = "annotations b"
  have pub: "fst (publish applyWrites toCreateOperations b) = publish_loop ?anns rs 0 []"
    using ops ne did resp rs
    by (cases "annotations b") (simp_all add: publish_def Let_def)
  have ok_iff: "isOk (publish_loop ?anns rs 0 []) \<longleftrightarrow>
      length ?anns \<le> length rs \<and>
      (\<forall>i < length ?anns. result_type (rs ! i) = ''com.atproto.repo.applyWrites#createResult'')"
  proof -
    have "length ?anns \<le> length rs" if all: "\<forall>j < length ?anns. j < length rs"
    proof -
      have "length ?anns - 1 < length ?anns" using ne by simp
      then have "length ?anns - 1 < length rs" using all by blast
      then show ?thesis by arith
    qed
    then have "length ?anns \<le> length rs \<longleftrightarrow> (\<forall>j < length ?anns. j < length rs)"
      by auto
    then show ?thesis
      unfolding publish_loop_isOk_iff by auto
  qed
  have res: "fst ` set m = annotationId ` set ?anns \<and>
      (distinct (map annotationId ?anns) \<longrightarrow>
         m = zip (map annotationId ?anns) (map recordIdOf rs) \<and>
         length m = length ?anns \<and>
         (\<forall>i < length ?anns. m ! i = (annotationId (?anns ! i), recordIdOf (rs ! i))))"
    if m: "publish_loop ?anns rs 0 [] = Ok m" for m
  proof -
    have keys: "fst ` set m = annotationId ` set ?anns"
      using publish_loop_keys [OF m] by simp
    have len: "length ?anns \<le> length rs"
      using ok_iff m by simp
    have pos: "m = zip (map annotationId ?anns) (map recordIdOf rs) \<and>
         length m = length ?anns \<and>
         (\<forall>i < length ?anns. m ! i = (annotationId (?anns ! i), recordIdOf (rs ! i)))"
      if d: "distinct (map annotationId ?anns)"
    proof -
      have z: "m = zip (map annotationId ?anns) (map recordIdOf rs)"
        using publish_loop_result [OF m] d by simp
      then show ?thesis using len by simp
    qed
    show ?thesis using keys pos by blast
  qed
  show ?thesis
    unfolding pub using ok_iff res by blast
qed

theorem publish_positional_witness:
  "fst (publish fake_agent fake_mapper test_batch)
     = Ok [(''a1'', fake_record ''a1''), (''a2'', fake_record ''a2'')]"
proof -
  let ?ws = "[CreateWrite ''app.annos.annotation'' ''a1'' ''{rating:4}'',
              CreateWrite ''app.annos.annotation'' ''a2'' ''{value:0.7}'']"
  let ?rs = "[createResultOf ''a1'', createResultOf ''a2'']"
  have h1: "fake_mapper test_batch COLLECTION = Inr ?ws"
    by (simp add: test_batch_def fake_mapper_def COLLECTION_def rating_annotation_def
          dyad_annotation_def)
  have h2: "annotations test_batch \<noteq> []"
    by (simp add: test_batch_def)
  have h3: "curatorId (hd (annotations test_batch)) \<noteq> []"
    by (simp add: test_batch_def rating_annotation_def)
  have h4: "fake_agent \<lparr>repo = curatorId (hd (annotations test_batch)), writes = ?ws,
                         validate = False\<rparr> = Inr (Some ?rs)"
    by (simp add: fake_agent_def)
  have h5: "?rs = (case Some ?rs of None \<Rightarrow> [] | Some xs \<Rightarrow> xs)"
    by simp
  note inst = publish_positional [of fake_mapper test_batch ?ws fake_agent "Some ?rs" ?rs,
                  OF h1 h2 h3 h4 h5]
  have "length (annotations test_batch) \<le> length ?rs \<and>
        (\<forall>i < length (annotations test_batch).
           result_type (?rs ! i) = ''com.atproto.repo.applyWrites#createResult'')"
    by (auto simp: test_batch_def createResultOf_def less_Suc_eq)
  then have "isOk (fst (publish fake_agent fake_mapper test_batch))"
    using inst by blast
  then obtain m where m: "fst (publish fake_agent fake_mapper test_batch) = Ok m"
    by (cases "fst (publish fake_agent fake_mapper test_batch)") simp_all
  have "distinct (map annotationId (annotations test_batch))"
    by (simp add: test_batch_def rating_annotation_def dyad_annotation_def)
  then have "m = zip (map annotationId (annotations test_batch)) (map recordIdOf ?rs)"
    using inst m by blast
  then show ?thesis
    using m by (simp add: test_batch_def rating_annotation_def dyad_annotation_def
                  recordIdOf_def createResultOf_def fake_record_def)
qed

theorem publish_count_mismatch_counterexample:
  "length (annotations single_batch) = 1 \<and>
   snd (publish two_results_agent fake_mapper single_batch)
     = [\<lparr>repo = ''did:plc:curator123'',
         writes = [CreateWrite ''app.annos.annotation'' ''a1'' ''{rating:4}''],
         validate = False\<rparr>] \<and>
   two_results_agent \<lparr>repo = ''did:plc:curator123'',
         writes = [CreateWrite ''app.annos.annotation'' ''a1'' ''{rating:4}''],
         validate = False\<rparr>
     = Inr (Some [createResultOf ''a1'', createResultOf ''a2'']) \<and>
   fst (publish two_results_agent fake_mapper single_batch) = Ok [(''a1'', fake_record ''a1'')]"
  by (simp add: publish_def two_results_agent_def fake_mapper_def single_batch_def
        rating_annotation_def COLLECTION_def publish_loop_step publish_loop_done
        createResultOf_def fake_record_def Let_def)

text \<open>
  C9. For the empty batch \<open>publish\<close> returns the error "No curator DID found in annotations"
  and sends nothing. For every batch it sends at most one request, and a request it sends
  names the curatorId of the first annotation as the repo and carries the writes of the
  mapper; it does send that request whenever the batch is not empty, the first curatorId
  is not the empty string and the mapper returns.
\<close>

theorem publish_request_identity:
  "(annotations b = [] \<longrightarrow>
      publish applyWrites toCreateOperations b
        = (Err ''No curator DID found in annotations'', [])) \<and>
   length (snd (publish applyWrites toCreateOperations b)) \<le> 1 \<and>
   (\<forall>request \<in> set (snd (publish applyWrites toCreateOperations b)).
      annotations b \<noteq> [] \<and> repo request = curatorId (hd (annotations b)) \<and>
      toCreateOperations b COLLECTION = Inr (writes request)) \<and>
   (annotations b \<noteq> [] \<and> curatorId (hd (annotations b)) \<noteq> [] \<and>
    toCreateOperations b COLLECTION = Inr ws \<longrightarrow>
      snd (publish applyWrites toCreateOperations b)
        = [\<lparr>repo = curatorId (hd (annotations b)), writes = ws, validate = False\<rparr>])"
proof -
  have requests: "snd (publish applyWrites toCreateOperations b) =
     (case annotations b of
        [] \<Rightarrow> []
      | a # _ \<Rightarrow>
          if curatorId a = [] then []
          else (case toCreateOperations b COLLECTION of
                  Inl e \<Rightarrow> []
                | Inr ws \<Rightarrow> [\<lparr>repo = curatorId a, writes = ws, validate = False\<rparr>]))"
    by (simp add: publish_def Let_def split: list.splits sum.splits)
  have empty: "annotations b = [] \<longrightarrow>
      publish applyWrites toCreateOperations b
        = (Err ''No curator DID found in annotations'', [])"
    by (simp add: publish_def)
  show ?thesis
    unfolding requests using empty
    by (cases "annotations b"; cases "toCreateOperations b COLLECTION") simp_all
qed

theorem publish_request_identity_witness:
  "publish fake_agent fake_mapper empty_batch
     = (Err ''No curator DID found in annotations'', []) \<and>
   snd (publish fake_agent fake_mapper test_batch)
     = [\<lparr>repo = ''did:plc:curator123'',
         writes = [CreateWrite ''app.annos.annotation'' ''a1'' ''{rating:4}'',
                   CreateWrite ''app.annos.annotation'' ''a2'' ''{value:0.7}''],
         validate = False\<rparr>]"
proof -
  let ?ws = "[CreateWrite ''app.annos.annotation'' ''a1'' ''{rating:4}'',
              CreateWrite ''app.annos.annotation'' ''a2'' ''{value:0.7}'']"
  have e: "annotations empty_batch = []"
    by (simp add: empty_batch_def)
  have h: "annotations test_batch \<noteq> [] \<and> curatorId (hd (annotations test_batch)) \<noteq> [] \<and>
           fake_mapper test_batch COLLECTION = Inr ?ws"
    by (simp add: test_batch_def fake_mapper_def COLLECTION_def rating_annotation_def
          dyad_annotation_def)
  have c: "curatorId (hd (annotations test_batch)) = ''did:plc:curator123''"
    by (simp add: test_batch_def rating_annotation_def)
  from publish_request_identity [of empty_batch fake_agent fake_mapper] e
  have 1: "publish fake_agent fake_mapper empty_batch
             = (Err ''No curator DID found in annotations'', [])"
    by blast
  from publish_request_identity [of test_batch fake_agent fake_mapper ?ws] h
  have "snd (publish fake_agent fake_mapper test_batch)
          = [\<lparr>repo = curatorId (hd (annotations test_batch)), writes = ?ws, validate = False\<rparr>]"
    by blast
  then show ?thesis using 1 c by simp
qed

section \<open>Properties of unpublish\<close>

lemma group_records_fails:
  "r \<in> set recordIds \<Longrightarrow> ATUri_new DID_new (uri r) = Inl e \<Longrightarrow>
   \<exists>e'. group_records DID_new recordIds acc = Inl e'"
proof (induction recordIds arbitrary: acc)
  case Nil
  then show ?case by simp
next
  case (Cons x xs)
  show ?case
  proof (cases "ATUri_new DID_new (uri x)")
    case (Inl e')
    then show ?thesis by (simp add: StrongRef_atUri_def)
  next
    case (Inr a)
    then have "r \<in> set xs" using Cons.prems by auto
    then show ?thesis
      using Cons.IH Cons.prems(2) Inr by (simp add: StrongRef_atUri_def Let_def)
  qed
qed

lemma group_records_parsed:
  "group_records DID_new recordIds acc = Inr g \<Longrightarrow>
   \<forall>r \<in> set recordIds. \<exists>a. ATUri_new DID_new (uri r) = Inr a"
proof (induction recordIds arbitrary: acc)
  case Nil
  then show ?case by simp
next
  case (Cons x xs)
  show ?case
  proof (cases "ATUri_new DID_new (uri x)")
    case (Inl e')
    then show ?thesis using Cons.prems by (simp add: StrongRef_atUri_def)
  next
    case (Inr a)
    then show ?thesis
      using Cons.IH Cons.prems by (simp add: StrongRef_atUri_def Let_def)
  qed
qed

lemma ATUri_new_segments:
  "length (split CHR ''/'' u) \<noteq> 5 \<Longrightarrow> ATUri_new DID_new u = Inl ''Invalid AT URI''"
  by (simp add: ATUri_new_def Let_def)

lemma ATUri_new_Inr_segments:
  "ATUri_new DID_new u = Inr a \<Longrightarrow> length (split CHR ''/'' u) = 5"
  by (auto simp: ATUri_new_def Let_def split: if_splits)

lemma map_entry_map_keys:
  "distinct ks \<Longrightarrow>
   AList.map_entry k f (map (\<lambda>r. (r, h r)) ks)
     = map (\<lambda>r. (r, if r = k then f (h r) else h r)) ks"
proof (induction ks)
  case Nil
  then show ?case by simp
next
  case (Cons a ks)
  show ?case
  proof (cases "a = k")
    case True
    then have "k \<notin> set ks" using Cons.prems by simp
    then have "map (\<lambda>r. (r, if r = k then f (h r) else h r)) ks = map (\<lambda>r. (r, h r)) ks"
      by (intro map_cong) auto
    then show ?thesis using True by simp
  next
    case False
    then show ?thesis using Cons by simp
  qed
qed

lemma map_entry_append_last:
  "k \<notin> fst ` set m \<Longrightarrow> AList.map_entry k f (m @ [(k, v)]) = m @ [(k, f v)]"
  by (induction m) auto

lemma reposInOrder_snoc:
  "reposInOrder (rs @ [r]) = (if r \<in> set rs then reposInOrder rs else reposInOrder rs @ [r])"
  by (simp add: reposInOrder_def)

lemma reposInOrder_set: "set (reposInOrder rs) = set rs"
  by (simp add: reposInOrder_def)

lemma reposInOrder_distinct: "distinct (reposInOrder rs)"
  by (simp add: reposInOrder_def)

lemma group_records_snoc:
  "group_records DID_new (xs @ [x]) acc =
     (case group_records DID_new xs acc of
        Inl e \<Rightarrow> Inl e
      | Inr m \<Rightarrow>
          (case StrongRef_atUri DID_new x of
             Inl e \<Rightarrow> Inl e
           | Inr a \<Rightarrow>
               Inr (AList.map_entry (did_toString (did a))
                      (\<lambda>records. records @ [(rkey a, uri x)])
                      (if map_of m (did_toString (did a)) = None
                       then AList.update (did_toString (did a)) [] m else m))))"
  by (induction xs arbitrary: acc) (auto simp: Let_def split: sum.splits)

text \<open>
  The first loop files every record under its own repo: the groups are the repos in the
  order of their first appearance, each with the (rkey, uri) pairs of its records in order.
\<close>

lemma group_records_by_repo:
  assumes "\<forall>r \<in> set recordIds. \<exists>a. StrongRef_atUri DID_new r = Inr a"
  shows "group_records DID_new recordIds [] =
           Inr (map (\<lambda>r. (r, map (\<lambda>recordId. (recordRkey DID_new recordId, uri recordId))
                               (filter (\<lambda>recordId. recordRepo DID_new recordId = r) recordIds)))
                  (reposInOrder (map (recordRepo DID_new) recordIds)))"
  using assms
proof (induction recordIds rule: rev_induct)
  case Nil
  then show ?case by (simp add: reposInOrder_def)
next
  case (snoc x xs)
  let ?items = "\<lambda>rs r. map (\<lambda>recordId. (recordRkey DID_new recordId, uri recordId))
                          (filter (\<lambda>recordId. recordRepo DID_new recordId = r) rs)"
  let ?ks = "reposInOrder (map (recordRepo DID_new) xs)"
  let ?G = "map (\<lambda>r. (r, ?items xs r)) ?ks"
  from snoc.prems obtain a where a: "StrongRef_atUri DID_new x = Inr a"
    by auto
  let ?k = "did_toString (did a)"
  let ?item = "(rkey a, uri x)"
  have k: "recordRepo DID_new x = ?k" and rk: "recordRkey DID_new x = rkey a"
    using a by (simp_all add: recordRepo_def recordRkey_def)
  have IH: "group_records DID_new xs [] = Inr ?G"
    using snoc.IH snoc.prems by simp
  have step: "group_records DID_new (xs @ [x]) [] =
      Inr (AList.map_entry ?k (\<lambda>records. records @ [?item])
             (if map_of ?G ?k = None then AList.update ?k [] ?G else ?G))"
    unfolding group_records_snoc IH using a by simp
  have "fst ` set ?G = set ?ks"
    by (simp add: image_image)
  then have keys: "fst ` set ?G = set (map (recordRepo DID_new) xs)"
    using reposInOrder_set [of "map (recordRepo DID_new) xs"] by simp
  have items_snoc: "?items (xs @ [x]) r = (if r = ?k then ?items xs r @ [?item] else ?items xs r)"
    for r
    using k rk by auto
  show ?case
  proof (cases "?k \<in> set (map (recordRepo DID_new) xs)")
    case True
    then have "map_of ?G ?k \<noteq> None"
      using keys by (simp add: map_of_eq_None_iff del: set_map)
    then have "(if map_of ?G ?k = None then AList.update ?k [] ?G else ?G) = ?G"
      by (rule if_not_P)
    then have "group_records DID_new (xs @ [x]) [] =
                 Inr (AList.map_entry ?k (\<lambda>records. records @ [?item]) ?G)"
      using step by (simp only:)
    also have "AList.map_entry ?k (\<lambda>records. records @ [?item]) ?G
                 = map (\<lambda>r. (r, if r = ?k then ?items xs r @ [?item] else ?items xs r)) ?ks"
      by (rule map_entry_map_keys) (rule reposInOrder_distinct)
    also have "\<dots> = map (\<lambda>r. (r, ?items (xs @ [x]) r)) ?ks"
      using items_snoc by simp
    also have "?ks = reposInOrder (map (recordRepo DID_new) (xs @ [x]))"
      using True k by (simp add: reposInOrder_snoc del: set_map)
    finally show ?thesis .
  next
    case False
    then have fresh: "?k \<notin> fst ` set ?G"
      using keys by simp
    then have "map_of ?G ?k = None"
      by (simp add: map_of_eq_None_iff del: set_map)
    then have "(if map_of ?G ?k = None then AList.update ?k [] ?G else ?G)
                 = AList.update ?k [] ?G"
      by (rule if_P)
    then have "group_records DID_new (xs @ [x]) [] =
                 Inr (AList.map_entry ?k (\<lambda>records. records @ [?item]) (AList.update ?k [] ?G))"
      using step by (simp only:)
    also have "AList.update ?k [] ?G = ?G @ [(?k, [])]"
      using fresh by (rule update_fresh_append)
    also have "AList.map_entry ?k (\<lambda>records. records @ [?item]) (?G @ [(?k, [])])
                 = ?G @ [(?k, [?item])]"
      using map_entry_append_last [OF fresh, of "\<lambda>records. records @ [?item]" "[]"] by simp
    also have "?G = map (\<lambda>r. (r, ?items (xs @ [x]) r)) ?ks"
    proof (rule map_cong [OF refl])
      fix r assume "r \<in> set ?ks"
      then have "r \<in> set (map (recordRepo DID_new) xs)"
        using reposInOrder_set [of "map (recordRepo DID_new) xs"] by blast
      then have "r \<noteq> ?k" using False by blast
      then show "(r, ?items xs r) = (r, ?items (xs @ [x]) r)"
        using items_snoc by simp
    qed
    also have "[(?k, [?item])] = map (\<lambda>r. (r, ?items (xs @ [x]) r)) [?k]"
    proof -
      have "filter (\<lambda>recordId. recordRepo DID_new recordId = ?k) xs = []"
        using False by (auto simp: filter_empty_conv image_iff)
      then show ?thesis using items_snoc by simp
    qed
    also have "map (\<lambda>r. (r, ?items (xs @ [x]) r)) ?ks @ map (\<lambda>r. (r, ?items (xs @ [x]) r)) [?k]
                 = map (\<lambda>r. (r, ?items (xs @ [x]) r)) (?ks @ [?k])"
      by simp
    also have "?ks @ [?k] = reposInOrder (map (recordRepo DID_new) (xs @ [x]))"
      using False k by (simp add: reposInOrder_snoc del: set_map)
    finally show ?thesis .
  qed
qed

text \<open>The second loop sends the requests of the groups in order, up to the first that throws.\<close>

lemma delete_loop_prefix:
  "\<exists>rest. map (\<lambda>(r, records).
                 \<lparr>repo = r, writes = map (\<lambda>record. DeleteWrite COLLECTION (fst record)) records,
                  validate = False\<rparr>) groups
           = snd (delete_loop applyWrites groups) @ rest"
proof (induction groups)
  case Nil
  then show ?case by simp
next
  case (Cons g groups)
  obtain r records where g: "g = (r, records)" by (cases g)
  show ?case
    using Cons.IH unfolding g
    by (cases "applyWrites \<lparr>repo = r,
                  writes = map (\<lambda>record. DeleteWrite COLLECTION (fst record)) records,
                  validate = False\<rparr>";
        cases "delete_loop applyWrites groups")
       (auto simp: Let_def)
qed

lemma delete_loop_all:
  "\<forall>request \<in> set (map (\<lambda>(r, records).
                 \<lparr>repo = r, writes = map (\<lambda>record. DeleteWrite COLLECTION (fst record)) records,
                  validate = False\<rparr>) groups). \<exists>x. applyWrites request = Inr x \<Longrightarrow>
   delete_loop applyWrites groups
     = (None, map (\<lambda>(r, records).
                 \<lparr>repo = r, writes = map (\<lambda>record. DeleteWrite COLLECTION (fst record)) records,
                  validate = False\<rparr>) groups)"
proof (induction groups)
  case Nil
  then show ?case by simp
next
  case (Cons g groups)
  obtain r records where g: "g = (r, records)" by (cases g)
  from Cons.prems obtain x where
    "applyWrites \<lparr>repo = r,
                  writes = map (\<lambda>record. DeleteWrite COLLECTION (fst record)) records,
                  validate = False\<rparr> = Inr x"
    unfolding g by auto
  moreover have "delete_loop applyWrites groups
     = (None, map (\<lambda>(r, records).
                 \<lparr>repo = r, writes = map (\<lambda>record. DeleteWrite COLLECTION (fst record)) records,
                  validate = False\<rparr>) groups)"
    using Cons.IH Cons.prems by simp
  ultimately show ?case unfolding g by (simp add: Let_def)
qed

lemma delete_loop_None:
  "fst (delete_loop applyWrites groups) = None \<Longrightarrow>
   snd (delete_loop applyWrites groups)
     = map (\<lambda>(r, records).
                 \<lparr>repo = r, writes = map (\<lambda>record. DeleteWrite COLLECTION (fst record)) records,
                  validate = False\<rparr>) groups"
proof (induction groups)
  case Nil
  then show ?case by simp
next
  case (Cons g groups)
  obtain r records where g: "g = (r, records)" by (cases g)
  show ?case
    using Cons unfolding g
    by (cases "applyWrites \<lparr>repo = r,
                  writes = map (\<lambda>record. DeleteWrite COLLECTION (fst record)) records,
                  validate = False\<rparr>";
        cases "delete_loop applyWrites groups")
       (auto simp: Let_def)
qed

lemma requests_of_groups:
  "map (\<lambda>(r, records).
          \<lparr>repo = r, writes = map (\<lambda>record. DeleteWrite COLLECTION (fst record)) records,
           validate = False\<rparr>)
     (map (\<lambda>r. (r, map (\<lambda>recordId. (recordRkey DID_new recordId, uri recordId))
                     (filter (\<lambda>recordId. recordRepo DID_new recordId = r) recordIds)))
        (reposInOrder (map (recordRepo DID_new) recordIds)))
   = expected_delete_requests DID_new recordIds"
  by (simp add: expected_delete_requests_def comp_def)

lemma unpublish_sent_by_repo:
  "(\<exists>rest. expected_delete_requests DID_new recordIds
             = snd (unpublish applyWrites DID_new recordIds) @ rest) \<and>
   (fst (unpublish applyWrites DID_new recordIds) = Ok () \<longrightarrow>
      snd (unpublish applyWrites DID_new recordIds)
        = expected_delete_requests DID_new recordIds)"
proof (cases "group_records DID_new recordIds []")
  case (Inl e)
  then show ?thesis by (simp add: unpublish_def)
next
  case (Inr g)
  let ?G = "map (\<lambda>r. (r, map (\<lambda>recordId. (recordRkey DID_new recordId, uri recordId))
                           (filter (\<lambda>recordId. recordRepo DID_new recordId = r) recordIds)))
              (reposInOrder (map (recordRepo DID_new) recordIds))"
  have "\<forall>r \<in> set recordIds. \<exists>a. StrongRef_atUri DID_new r = Inr a"
    using group_records_parsed [OF Inr] by (simp add: StrongRef_atUri_def)
  then have g: "group_records DID_new recordIds [] = Inr ?G"
    by (rule group_records_by_repo)
  obtain res sent where dl: "delete_loop applyWrites ?G = (res, sent)"
    by (cases "delete_loop applyWrites ?G")
  have sent: "snd (unpublish applyWrites DID_new recordIds) = sent"
    using g dl by (cases res) (simp_all add: unpublish_def)
  have ok: "fst (unpublish applyWrites DID_new recordIds) = Ok () \<longleftrightarrow> res = None"
    using g dl by (cases res) (simp_all add: unpublish_def)
  have prefix: "\<exists>rest. expected_delete_requests DID_new recordIds = sent @ rest"
    using delete_loop_prefix [of ?G applyWrites] dl
    unfolding requests_of_groups by simp
  have all: "sent = expected_delete_requests DID_new recordIds" if "res = None"
    using delete_loop_None [of applyWrites ?G] dl that
    unfolding requests_of_groups by simp
  show ?thesis
    using sent ok prefix all by simp
qed

lemma unpublish_all_accepted:
  assumes "\<forall>r \<in> set recordIds. \<exists>a. ATUri_new DID_new (uri r) = Inr a"
    and "\<forall>request \<in> set (expected_delete_requests DID_new recordIds).
           \<exists>x. applyWrites request = Inr x"
  shows "unpublish applyWrites DID_new recordIds
           = (Ok (), expected_delete_requests DID_new recordIds)"
proof -
  let ?G = "map (\<lambda>r. (r, map (\<lambda>recordId. (recordRkey DID_new recordId, uri recordId))
                           (filter (\<lambda>recordId. recordRepo DID_new recordId = r) recordIds)))
              (reposInOrder (map (recordRepo DID_new) recordIds))"
  have "\<forall>r \<in> set recordIds. \<exists>a. StrongRef_atUri DID_new r = Inr a"
    using assms(1) by (simp add: StrongRef_atUri_def)
  then have g: "group_records DID_new recordIds [] = Inr ?G"
    by (rule group_records_by_repo)
  have "delete_loop applyWrites ?G = (None, expected_delete_requests DID_new recordIds)"
    using delete_loop_all [of ?G applyWrites] assms(2)
    unfolding requests_of_groups by simp
  then show ?thesis using g by (simp add: unpublish_def)
qed

text \<open>
  C10. \<open>unpublish\<close> parses and groups every record before it sends anything. If the uri of
  some record does not have exactly five segments between its slashes, \<open>unpublish\<close>
  returns an error and has sent no request. Conversely, whenever \<open>unpublish\<close> has sent a
  request, the uri of every record has five segments and went through the \<open>ATUri\<close>
  constructor. The records are grouped by repository: the requests sent are, in order, the
  first ones of the expected delete requests (one per repo in the order of first
  appearance, each with the deletes of the record keys of that repo's records); they are
  all of them when \<open>unpublish\<close> succeeds, and \<open>unpublish\<close> succeeds with all of them sent
  when every record parses and the ledger accepts each request.
\<close>

theorem unpublish_invalid_uri_sends_nothing:
  "((\<exists>r \<in> set recordIds. length (split CHR ''/'' (uri r)) \<noteq> 5) \<longrightarrow>
      (\<exists>e. unpublish applyWrites DID_new recordIds = (Err e, []))) \<and>
   (snd (unpublish applyWrites DID_new recordIds) \<noteq> [] \<longrightarrow>
      (\<forall>r \<in> set recordIds.
         length (split CHR ''/'' (uri r)) = 5 \<and> (\<exists>a. ATUri_new DID_new (uri r) = Inr a))) \<and>
   (\<exists>rest. expected_delete_requests DID_new recordIds
             = snd (unpublish applyWrites DID_new recordIds) @ rest) \<and>
   (fst (unpublish applyWrites DID_new recordIds) = Ok () \<longrightarrow>
      snd (unpublish applyWrites DID_new recordIds)
        = expected_delete_requests DID_new recordIds) \<and>
   ((\<forall>r \<in> set recordIds. \<exists>a. ATUri_new DID_new (uri r) = Inr a) \<and>
    (\<forall>request \<in> set (expected_delete_requests DID_new recordIds).
       \<exists>x. applyWrites request = Inr x) \<longrightarrow>
      unpublish applyWrites DID_new recordIds
        = (Ok (), expected_delete_requests DID_new recordIds))"
proof -
  have 1: "(\<exists>r \<in> set recordIds. length (split CHR ''/'' (uri r)) \<noteq> 5) \<longrightarrow>
      (\<exists>e. unpublish applyWrites DID_new recordIds = (Err e, []))"
  proof
    assume "\<exists>r \<in> set recordIds. length (split CHR ''/'' (uri r)) \<noteq> 5"
    then obtain r where r: "r \<in> set recordIds" "length (split CHR ''/'' (uri r)) \<noteq> 5"
      by blast
    from r(2) have "ATUri_new DID_new (uri r) = Inl ''Invalid AT URI''"
      by (rule ATUri_new_segments)
    with r(1) obtain e where "group_records DID_new recordIds [] = Inl e"
      using group_records_fails by blast
    then have "unpublish applyWrites DID_new recordIds = (Err e, [])"
      by (simp add: unpublish_def)
    then show "\<exists>e. unpublish applyWrites DID_new recordIds = (Err e, [])" ..
  qed
  have 2: "snd (unpublish applyWrites DID_new recordIds) \<noteq> [] \<longrightarrow>
      (\<forall>r \<in> set recordIds.
         length (split CHR ''/'' (uri r)) = 5 \<and> (\<exists>a. ATUri_new DID_new (uri r) = Inr a))"
  proof
    assume sent: "snd (unpublish applyWrites DID_new recordIds) \<noteq> []"
    then obtain g where g: "group_records DID_new recordIds [] = Inr g"
      by (cases "group_records DID_new recordIds []") (simp_all add: unpublish_def)
    show "\<forall>r \<in> set recordIds.
           length (split CHR ''/'' (uri r)) = 5 \<and> (\<exists>a. ATUri_new DID_new (uri r) = Inr a)"
      using group_records_parsed [OF g] ATUri_new_Inr_segments by blast
  qed
  show ?thesis
    using 1 2 unpublish_sent_by_repo [of DID_new recordIds applyWrites]
      unpublish_all_accepted [of recordIds DID_new applyWrites]
    by blast
qed

theorem unpublish_invalid_uri_sends_nothing_witness:
  "unpublish fake_agent any_DID [fake_record ''a1'', short_record] = (Err ''Invalid AT URI'', []) \<and>
   unpublish fake_agent any_DID two_repo_records
     = (Ok (), [\<lparr>repo = ''did:plc:alice'',
                 writes = [DeleteWrite ''app.annos.annotation'' ''k1'',
                           DeleteWrite ''app.annos.annotation'' ''k3''],
                 validate = False\<rparr>,
                \<lparr>repo = ''did:plc:bob'',
                 writes = [DeleteWrite ''app.annos.annotation'' ''k2''],
                 validate = False\<rparr>]) \<and>
   unpublish bob_refusing_agent any_DID two_repo_records
     = (Err ''Could not find repo'',
        [\<lparr>repo = ''did:plc:alice'',
          writes = [DeleteWrite ''app.annos.annotation'' ''k1'',
                    DeleteWrite ''app.annos.annotation'' ''k3''],
          validate = False\<rparr>,
         \<lparr>repo = ''did:plc:bob'',
          writes = [DeleteWrite ''app.annos.annotation'' ''k2''],
          validate = False\<rparr>])"
proof -
  let ?alice = "\<lparr>repo = ''did:plc:alice'',
                 writes = [DeleteWrite ''app.annos.annotation'' ''k1'',
                           DeleteWrite ''app.annos.annotation'' ''k3''],
                 validate = False\<rparr>"
  let ?bob = "\<lparr>repo = ''did:plc:bob'',
               writes = [DeleteWrite ''app.annos.annotation'' ''k2''],
               validate = False\<rparr>"
  have bad: "\<exists>r \<in> set [fake_record ''a1'', short_record]. length (split CHR ''/'' (uri r)) \<noteq> 5"
    by (simp add: short_record_def)
  from unpublish_invalid_uri_sends_nothing
         [of "[fake_record ''a1'', short_record]" fake_agent any_DID] bad
  obtain e where e: "unpublish fake_agent any_DID [fake_record ''a1'', short_record] = (Err e, [])"
    by blast
  have "fst (unpublish fake_agent any_DID [fake_record ''a1'', short_record])
          = Err ''Invalid AT URI''"
    by (simp add: unpublish_def StrongRef_atUri_def ATUri_new_def any_DID_def fake_record_def
          short_record_def Let_def)
  with e have 1: "unpublish fake_agent any_DID [fake_record ''a1'', short_record]
                    = (Err ''Invalid AT URI'', [])"
    by simp
  have parsed: "\<forall>r \<in> set two_repo_records. \<exists>a. ATUri_new any_DID (uri r) = Inr a"
    by (simp add: two_repo_records_def ATUri_new_def any_DID_def Let_def)
  have expected: "expected_delete_requests any_DID two_repo_records = [?alice, ?bob]"
    by (simp add: expected_delete_requests_def two_repo_records_def recordRepo_def
          recordRkey_def reposInOrder_def StrongRef_atUri_def ATUri_new_def any_DID_def
          COLLECTION_def Let_def)
  have accepted: "\<forall>request \<in> set (expected_delete_requests any_DID two_repo_records).
                    \<exists>x. fake_agent request = Inr x"
    by (simp add: fake_agent_def)
  from unpublish_invalid_uri_sends_nothing [of two_repo_records fake_agent any_DID]
    parsed accepted
  have "unpublish fake_agent any_DID two_repo_records
          = (Ok (), expected_delete_requests any_DID two_repo_records)"
    by blast
  then have 2: "unpublish fake_agent any_DID two_repo_records = (Ok (), [?alice, ?bob])"
    using expected by simp
  have run: "unpublish bob_refusing_agent any_DID two_repo_records
               = (Err ''Could not find repo'', [?alice, ?bob])"
    by (simp add: unpublish_def two_repo_records_def StrongRef_atUri_def ATUri_new_def
          any_DID_def bob_refusing_agent_def COLLECTION_def Let_def)
  then have "snd (unpublish bob_refusing_agent any_DID two_repo_records) \<noteq> []"
    by simp
  with unpublish_invalid_uri_sends_nothing [of two_repo_records bob_refusing_agent any_DID]
  obtain rest where
    "expected_delete_requests any_DID two_repo_records
       = snd (unpublish bob_refusing_agent any_DID two_repo_records) @ rest"
    by blast
  then have "rest = []" using run expected by simp
  show ?thesis using 1 2 run by simp
qed

section \<open>Properties of the use case\<close>

lemma isErr_not_isOk: "isErr r \<longleftrightarrow> \<not> isOk r"
  by (cases r) simp_all

lemma save_all_effects: "set (snd (save_all P anns)) \<subseteq> Save ` set anns"
proof (induction anns)
  case Nil
  then show ?case by simp
next
  case (Cons a anns)
  then show ?case
    by (cases "annotationRepository_save P a"; cases "save_all P anns") auto
qed

text \<open>
  A run that calls the publisher, or that succeeds, has passed every step up to the
  assembly of the batch; the first effect is the call of the publisher with that batch, and
  the effects after it are the saves of the marked annotations.
\<close>

lemma execute_reaches_publish:
  assumes "snd (execute P request) \<noteq> [] \<or> isOk (fst (execute P request))"
  shows "\<exists>c u tid t anns b.
           CuratorId_create P (dto_curatorId request) = Ok c \<and>
           URI_create (parsesAsURL P) (dto_url request) = Inr (Ok u) \<and>
           AnnotationTemplateId_create P (dto_templateId request) = Ok tid \<and>
           templateRepository_findById P tid = Inr (Some t) \<and>
           build_annotations P c u tid 0 (dto_annotations request) [] = Ok anns \<and>
           AnnotationsFromTemplate_create anns t c (now P) = Ok b \<and>
           hd (snd (execute P request)) = Publish b \<and>
           snd (execute P request) \<noteq> [] \<and>
           (tl (snd (execute P request)) = [] \<or>
            (\<exists>ids marked. publisher_publish P b = Inr (Ok ids) \<and>
               markAllAnnotationsAsPublished b ids = (Ok (), marked) \<and>
               tl (snd (execute P request)) = snd (save_all P (annotations marked))))"
proof (cases "URI_create (parsesAsURL P) (dto_url request)")
  case (Inl e)
  then show ?thesis using assms by (simp add: execute_def)
next
  case (Inr urlOrError)
  note url = this
  show ?thesis
  proof (cases "CuratorId_create P (dto_curatorId request)")
    case (Err e)
    then show ?thesis using assms url by (simp add: execute_def)
  next
    case (Ok c)
    note cur = this
    show ?thesis
    proof (cases urlOrError)
      case (Err e)
      then show ?thesis using assms url cur by (simp add: execute_def)
    next
      case (Ok u)
      note u = this
      show ?thesis
      proof (cases "AnnotationTemplateId_create P (dto_templateId request)")
        case (Err e)
        then show ?thesis using assms url cur u by (simp add: execute_def)
      next
        case (Ok tid)
        note tid = this
        have ex: "execute P request =
          (case templateRepository_findById P tid of
             Inl e \<Rightarrow> (Err (UnexpectedError e), [])
           | Inr None \<Rightarrow> (Err (TemplateNotFound tid), [])
           | Inr (Some t) \<Rightarrow>
          (case build_annotations P c u tid 0 (dto_annotations request) [] of
             Err e \<Rightarrow> (Err e, [])
           | Ok anns \<Rightarrow>
          (case AnnotationsFromTemplate_create anns t c (now P) of
             Err e \<Rightarrow> (Err (AnnotationCreationFailed (TemplateRequirements e)), [])
           | Ok annotationsFromTemplate \<Rightarrow>
          (case publisher_publish P annotationsFromTemplate of
             Inl e \<Rightarrow> (Err (UnexpectedError e), [Publish annotationsFromTemplate])
           | Inr (Err message) \<Rightarrow>
               (Err (AnnotationPublishFailed ''batch'' (PublisherError message)),
                [Publish annotationsFromTemplate])
           | Inr (Ok publishedRecordIds) \<Rightarrow>
          (case markAllAnnotationsAsPublished annotationsFromTemplate publishedRecordIds of
             (Err e, _) \<Rightarrow>
               (Err (AnnotationPublishFailed ''batch'' (MarkPublishedFailed e)),
                [Publish annotationsFromTemplate])
           | (Ok _, marked) \<Rightarrow>
          (case save_all P (annotations marked) of
             (Some e, effects) \<Rightarrow>
               (Err (AnnotationSaveFailed ''batch'' e), Publish annotationsFromTemplate # effects)
           | (None, effects) \<Rightarrow>
               (Ok (map annotationId (annotations marked)),
                Publish annotationsFromTemplate # effects)))))))"
          using url cur u tid by (simp add: execute_def)
        show ?thesis
        proof (cases "templateRepository_findById P tid")
          case (Inl e)
          then show ?thesis using assms ex by simp
        next
          case (Inr topt)
          show ?thesis
          proof (cases topt)
            case None
            then show ?thesis using assms ex Inr by simp
          next
            case (Some t)
            note t = Inr [unfolded Some]
            show ?thesis
            proof (cases "build_annotations P c u tid 0 (dto_annotations request) []")
              case (Err e)
              then show ?thesis using assms ex t by simp
            next
              case (Ok anns)
              note anns = this
              show ?thesis
              proof (cases "AnnotationsFromTemplate_create anns t c (now P)")
                case (Err e)
                then show ?thesis using assms ex t anns by simp
              next
                case (Ok b)
                note b = this
                have pre: "CuratorId_create P (dto_curatorId request) = Ok c \<and>
                   URI_create (parsesAsURL P) (dto_url request) = Inr (Ok u) \<and>
                   AnnotationTemplateId_create P (dto_templateId request) = Ok tid \<and>
                   templateRepository_findById P tid = Inr (Some t) \<and>
                   build_annotations P c u tid 0 (dto_annotations request) [] = Ok anns \<and>
                   AnnotationsFromTemplate_create anns t c (now P) = Ok b"
                  using cur url u tid t anns b by simp
                have eff: "hd (snd (execute P request)) = Publish b \<and>
                   snd (execute P request) \<noteq> [] \<and>
                   (tl (snd (execute P request)) = [] \<or>
                    (\<exists>ids marked. publisher_publish P b = Inr (Ok ids) \<and>
                       markAllAnnotationsAsPublished b ids = (Ok (), marked) \<and>
                       tl (snd (execute P request)) = snd (save_all P (annotations marked))))"
                  using ex t anns b
                  by (auto split: sum.splits Result.splits prod.splits option.splits)
                show ?thesis using pre eff by blast
              qed
            qed
          qed
        qed
      qed
    qed
  qed
qed
lemma build_annotation_rejected:
  "input_rejected P annotationInput \<Longrightarrow> isErr (build_annotation P c u tid k annotationInput)"
  unfolding input_rejected_def build_annotation_def
  by (auto simp: Annotation_create_def split: Result.splits sum.splits option.splits)

lemma build_annotations_rejected:
  "annotationInput \<in> set inputs \<Longrightarrow> input_rejected P annotationInput \<Longrightarrow>
   isErr (build_annotations P c u tid k inputs acc)"
proof (induction inputs arbitrary: k acc)
  case Nil
  then show ?case by simp
next
  case (Cons x xs)
  show ?case
  proof (cases "build_annotation P c u tid k x")
    case (Err e)
    then show ?thesis by simp
  next
    case (Ok a)
    then have "x \<noteq> annotationInput"
      using build_annotation_rejected [OF Cons.prems(2), of c u tid k] by auto
    then have "annotationInput \<in> set xs" using Cons.prems(1) by simp
    then show ?thesis using Cons.IH Cons.prems(2) Ok by simp
  qed
qed

text \<open>
  C4. If a run fails at any step up to and including the assembly of the batch (an invalid
  curatorId, url or templateId; a template that is not found; an input whose field id is
  invalid, whose field is not found, whose declared type differs from the field's type,
  whose value payload is invalid or whose annotation cannot be constructed; a batch that
  violates an invariant), then \<open>execute\<close> returns an error and the run has no effect: neither
  the publisher's \<open>publish\<close> nor the repository's \<open>save\<close> has been called.
\<close>

theorem execute_fail_fast:
  "fails_before_publish P request \<Longrightarrow>
   isErr (fst (execute P request)) \<and> snd (execute P request) = []"
proof (rule ccontr)
  assume fails: "fails_before_publish P request"
  assume "\<not> (isErr (fst (execute P request)) \<and> snd (execute P request) = [])"
  then have "snd (execute P request) \<noteq> [] \<or> isOk (fst (execute P request))"
    by (auto simp: isErr_not_isOk)
  then obtain c u tid t anns b where
    c: "CuratorId_create P (dto_curatorId request) = Ok c" and
    u: "URI_create (parsesAsURL P) (dto_url request) = Inr (Ok u)" and
    tid: "AnnotationTemplateId_create P (dto_templateId request) = Ok tid" and
    t: "templateRepository_findById P tid = Inr (Some t)" and
    anns: "build_annotations P c u tid 0 (dto_annotations request) [] = Ok anns" and
    b: "AnnotationsFromTemplate_create anns t c (now P) = Ok b"
    using execute_reaches_publish [of P request] by blast
  have 1: "\<not> invalid_common_properties P request"
    using c u tid by (simp add: invalid_common_properties_def)
  have 2: "\<not> template_not_found P request"
    using tid t by (simp add: template_not_found_def)
  have 3: "\<not> (\<exists>annotationInput \<in> set (dto_annotations request). input_rejected P annotationInput)"
    using build_annotations_rejected [of _ "dto_annotations request" P c u tid 0 "[]"] anns
    by auto
  have 4: "\<not> batch_rejected P request"
    using c u tid t anns b by (auto simp: batch_rejected_def)
  show False
    using fails 1 2 3 4 by (simp add: fails_before_publish_def)
qed

theorem execute_fail_fast_witness:
  "execute test_ports (test_dto\<lparr>dto_templateId := ''unknown''\<rparr>)
     = (Err (TemplateNotFound ''unknown''), []) \<and>
   execute test_ports (test_dto\<lparr>dto_annotations := [rating_input\<lparr>input_type := ''dyad''\<rparr>]\<rparr>)
     = (Err (AnnotationCreationFailed (TypeMismatch ''rating'' ''dyad'')), []) \<and>
   execute test_ports (test_dto\<lparr>dto_annotations := [dyad_input]\<rparr>)
     = (Err (AnnotationCreationFailed (TemplateRequirements (MissingRequiredFields [''f1'']))), [])"
proof -
  let ?d1 = "test_dto\<lparr>dto_templateId := ''unknown''\<rparr>"
  let ?d2 = "test_dto\<lparr>dto_annotations := [rating_input\<lparr>input_type := ''dyad''\<rparr>]\<rparr>"
  let ?d3 = "test_dto\<lparr>dto_annotations := [dyad_input]\<rparr>"
  have url: "URI_create web_url_only ''https://example.com/resource''
               = Inr (Ok (URI ''https://example.com/resource''))"
    by (simp add: URI_create_def URI_new_def web_url_only_def startsWith_def)
  have f1: "fails_before_publish test_ports ?d1"
    by (simp add: fails_before_publish_def template_not_found_def test_ports_def test_dto_def)
  have f2: "fails_before_publish test_ports ?d2"
    by (simp add: fails_before_publish_def input_rejected_def test_ports_def test_dto_def
          rating_input_def rating_field_def)
  have b3: "build_annotations test_ports ''did:plc:curator123''
              (URI ''https://example.com/resource'') ''t1'' 0 [dyad_input] []
            = Ok [dyad_annotation\<lparr>annotationId := ''a1''\<rparr>]"
    by (simp add: build_annotation_def Annotation_create_def matchesFieldType_def
          test_ports_def dyad_input_def dyad_field_def dyad_annotation_def)
  have c3: "AnnotationsFromTemplate_create [dyad_annotation\<lparr>annotationId := ''a1''\<rparr>]
              test_template ''did:plc:curator123'' 0 = Err (MissingRequiredFields [''f1''])"
    by (simp add: AnnotationsFromTemplate_create_def requiredFieldIds_def annotationFieldId_def
          test_template_def dyad_annotation_def rating_field_def dyad_field_def)
  have "batch_rejected test_ports ?d3"
    unfolding batch_rejected_def
    using url b3 c3
    by (intro exI [of _ "''did:plc:curator123''"] exI [of _ "URI ''https://example.com/resource''"]
          exI [of _ "''t1''"] exI [of _ test_template]
          exI [of _ "[dyad_annotation\<lparr>annotationId := ''a1''\<rparr>]"]
          exI [of _ "MissingRequiredFields [''f1'']"])
       (simp add: test_ports_def test_dto_def)
  then have f3: "fails_before_publish test_ports ?d3"
    by (simp add: fails_before_publish_def)
  have e1: "fst (execute test_ports ?d1) = Err (TemplateNotFound ''unknown'')"
    using url by (simp add: execute_def test_ports_def test_dto_def)
  have e2: "fst (execute test_ports ?d2)
              = Err (AnnotationCreationFailed (TypeMismatch ''rating'' ''dyad''))"
    using url by (simp add: execute_def build_annotation_def test_ports_def test_dto_def
                    rating_input_def rating_field_def)
  have e3: "fst (execute test_ports ?d3)
              = Err (AnnotationCreationFailed
                       (TemplateRequirements (MissingRequiredFields [''f1''])))"
    using url b3 c3 by (simp add: execute_def test_ports_def test_dto_def)
  show ?thesis
    using execute_fail_fast [OF f1] execute_fail_fast [OF f2] execute_fail_fast [OF f3] e1 e2 e3
    by (simp add: prod_eq_iff)
qed
lemma build_annotation_unpublished:
  "build_annotation P c u tid k annotationInput = Ok a \<Longrightarrow> publishedRecordId a = None"
  unfolding build_annotation_def
  by (auto simp: Annotation_create_def
           split: Result.splits sum.splits option.splits if_splits)

lemma build_annotations_unpublished:
  "build_annotations P c u tid k inputs acc = Ok anns \<Longrightarrow>
   \<forall>a \<in> set acc. publishedRecordId a = None \<Longrightarrow>
   \<forall>a \<in> set anns. publishedRecordId a = None"
proof (induction inputs arbitrary: k acc)
  case Nil
  then show ?case by simp
next
  case (Cons x xs)
  show ?case
  proof (cases "build_annotation P c u tid k x")
    case (Err e)
    then show ?thesis using Cons.prems by simp
  next
    case (Ok a)
    have "\<forall>a' \<in> set (acc @ [a]). publishedRecordId a' = None"
      using Cons.prems(2) build_annotation_unpublished [OF Ok] by simp
    then show ?thesis
      using Cons.IH [of "Suc k" "acc @ [a]"] Cons.prems(1) Ok by simp
  qed
qed

lemma markAllAnnotationsAsPublished_Ok:
  assumes "markAllAnnotationsAsPublished b ids = (Ok (), marked)"
  shows "\<forall>a \<in> set (annotations marked).
           \<exists>a0 \<in> set (annotations b). \<exists>r. map_of ids (annotationId a0) = Some r \<and>
                                           a = markAsPublished a0 r"
proof
  fix a
  assume a: "a \<in> set (annotations marked)"
  have present: "\<forall>a0 \<in> set (annotations b). map_of ids (annotationId a0) \<noteq> None"
    using assms by (auto simp: markAllAnnotationsAsPublished_def list_ex_iff split: if_splits)
  have "annotations marked
          = map (\<lambda>a. case map_of ids (annotationId a) of
                        Some r \<Rightarrow> markAsPublished a r
                      | None \<Rightarrow> a) (annotations b)"
    using assms by (auto simp: markAllAnnotationsAsPublished_def split: if_splits)
  then obtain a0 where a0: "a0 \<in> set (annotations b)"
    "a = (case map_of ids (annotationId a0) of Some r \<Rightarrow> markAsPublished a0 r | None \<Rightarrow> a0)"
    using a by auto
  from present a0(1) obtain r where r: "map_of ids (annotationId a0) = Some r"
    by auto
  then have "a = markAsPublished a0 r" using a0(2) by simp
  then show "\<exists>a0 \<in> set (annotations b). \<exists>r. map_of ids (annotationId a0) = Some r \<and>
                                           a = markAsPublished a0 r"
    using a0(1) r by blast
qed

text \<open>
  C6. In a run of the pipeline, every annotation of the batch handed to the publisher is
  unpublished: its publishedRecordId is absent. Every annotation handed to the repository
  afterwards is one of those annotations after a single \<open>markAsPublished\<close>, carrying the
  identifier that the publisher returned for its id: the pipeline has not changed it again.
  No operation of \<open>Annotation\<close> makes a publishedRecordId absent again.
\<close>

theorem publishedRecordId_set_once:
  "(\<forall>b. Publish b \<in> set (snd (execute P request)) \<longrightarrow>
      (\<forall>a \<in> set (annotations b). publishedRecordId a = None)) \<and>
   (\<forall>a. Save a \<in> set (snd (execute P request)) \<longrightarrow>
      (\<exists>b ids a0 r.
         hd (snd (execute P request)) = Publish b \<and>
         publisher_publish P b = Inr (Ok ids) \<and>
         a0 \<in> set (annotations b) \<and> publishedRecordId a0 = None \<and>
         map_of ids (annotationId a0) = Some r \<and>
         a = markAsPublished a0 r \<and> publishedRecordId a = Some r)) \<and>
   publishedRecordId (markAsPublished x r) \<noteq> None \<and>
   publishedRecordId (updatePublishedRecordId x r) \<noteq> None \<and>
   publishedRecordId (snd (updateValue x v)) = publishedRecordId x"
proof (cases "snd (execute P request) = []")
  case True
  then show ?thesis
    by (simp add: markAsPublished_def updatePublishedRecordId_def updateValue_def)
next
  case False
  then obtain c u tid t anns b where
    anns: "build_annotations P c u tid 0 (dto_annotations request) [] = Ok anns" and
    b: "AnnotationsFromTemplate_create anns t c (now P) = Ok b" and
    hd: "hd (snd (execute P request)) = Publish b" and
    tl: "tl (snd (execute P request)) = [] \<or>
         (\<exists>ids marked. publisher_publish P b = Inr (Ok ids) \<and>
            markAllAnnotationsAsPublished b ids = (Ok (), marked) \<and>
            tl (snd (execute P request)) = snd (save_all P (annotations marked)))"
    using execute_reaches_publish [of P request] by blast
  have eff: "snd (execute P request) = Publish b # tl (snd (execute P request))"
    using False hd by (cases "snd (execute P request)") simp_all
  have "annotations b = anns"
    using b by (auto simp: AnnotationsFromTemplate_create_def Let_def split: if_splits)
  then have unpublished: "\<forall>a \<in> set (annotations b). publishedRecordId a = None"
    using build_annotations_unpublished [OF anns] by simp
  have tail_saves: "\<forall>e \<in> set (tl (snd (execute P request))). \<exists>a. e = Save a"
    using tl save_all_effects by fastforce
  have pubs: "b' = b" if "Publish b' \<in> set (snd (execute P request))" for b'
  proof -
    have "Publish b' \<in> set (Publish b # tl (snd (execute P request)))"
      using that eff by simp
    then show ?thesis using tail_saves by auto
  qed
  have saves: "\<exists>ids a0 r.
         publisher_publish P b = Inr (Ok ids) \<and>
         a0 \<in> set (annotations b) \<and> publishedRecordId a0 = None \<and>
         map_of ids (annotationId a0) = Some r \<and>
         a = markAsPublished a0 r \<and> publishedRecordId a = Some r"
    if "Save a \<in> set (snd (execute P request))" for a
  proof -
    have "Save a \<in> set (Publish b # tl (snd (execute P request)))"
      using that eff by simp
    then have in_tl: "Save a \<in> set (tl (snd (execute P request)))"
      by simp
    then obtain ids marked where
      ids: "publisher_publish P b = Inr (Ok ids)" and
      marked: "markAllAnnotationsAsPublished b ids = (Ok (), marked)" and
      tl_eq: "tl (snd (execute P request)) = snd (save_all P (annotations marked))"
      using tl by auto
    have "a \<in> set (annotations marked)"
      using in_tl tl_eq save_all_effects [of P "annotations marked"] by auto
    then obtain a0 r where
      "a0 \<in> set (annotations b)" "map_of ids (annotationId a0) = Some r"
      "a = markAsPublished a0 r"
      using markAllAnnotationsAsPublished_Ok [OF marked] by blast
    then show ?thesis
      using ids unpublished by (auto simp: markAsPublished_def)
  qed
  show ?thesis
    using pubs unpublished saves hd
    by (simp add: markAsPublished_def updatePublishedRecordId_def updateValue_def)
qed

theorem publishedRecordId_set_once_witness:
  "execute test_ports test_dto
     = (Ok [''a1'', ''a2''],
        [Publish test_batch,
         Save (rating_annotation\<lparr>publishedRecordId := Some (fake_record ''a1'')\<rparr>),
         Save (dyad_annotation\<lparr>publishedRecordId := Some (fake_record ''a2'')\<rparr>)]) \<and>
   publishedRecordId rating_annotation = None \<and>
   publishedRecordId dyad_annotation = None \<and>
   publishedRecordId (rating_annotation\<lparr>publishedRecordId := Some (fake_record ''a1'')\<rparr>)
     = Some (fake_record ''a1'')"
proof -
  have url: "URI_create web_url_only ''https://example.com/resource''
               = Inr (Ok (URI ''https://example.com/resource''))"
    by (simp add: URI_create_def URI_new_def web_url_only_def startsWith_def)
  have built: "build_annotations test_ports ''did:plc:curator123''
              (URI ''https://example.com/resource'') ''t1'' 0 [rating_input, dyad_input] []
            = Ok [rating_annotation, dyad_annotation]"
    by (simp add: build_annotation_def Annotation_create_def matchesFieldType_def
          test_ports_def rating_input_def dyad_input_def rating_field_def dyad_field_def
          rating_annotation_def dyad_annotation_def)
  have batch: "AnnotationsFromTemplate_create [rating_annotation, dyad_annotation]
              test_template ''did:plc:curator123'' 0 = Ok test_batch"
    by (simp add: AnnotationsFromTemplate_create_def requiredFieldIds_def annotationFieldId_def
          test_template_def rating_annotation_def dyad_annotation_def rating_field_def
          dyad_field_def test_batch_def)
  have marked: "markAllAnnotationsAsPublished test_batch
                  [(''a1'', fake_record ''a1''), (''a2'', fake_record ''a2'')]
     = (Ok (), test_batch\<lparr>annotations :=
          [rating_annotation\<lparr>publishedRecordId := Some (fake_record ''a1'')\<rparr>,
           dyad_annotation\<lparr>publishedRecordId := Some (fake_record ''a2'')\<rparr>]\<rparr>)"
    by (simp add: markAllAnnotationsAsPublished_def markAsPublished_def test_batch_def
          rating_annotation_def dyad_annotation_def)
  have pub: "publisher_publish test_ports test_batch
               = Inr (Ok [(''a1'', fake_record ''a1''), (''a2'', fake_record ''a2'')])"
    by (simp add: test_ports_def test_batch_def rating_annotation_def dyad_annotation_def)
  have sel:
    "CuratorId_create test_ports ''did:plc:curator123'' = Ok ''did:plc:curator123''"
    "AnnotationTemplateId_create test_ports ''t1'' = Ok ''t1''"
    "parsesAsURL test_ports = web_url_only"
    "templateRepository_findById test_ports ''t1'' = Inr (Some test_template)"
    "now test_ports = 0"
    "\<And>a. annotationRepository_save test_ports a = None"
    by (simp_all add: test_ports_def)
  have run: "execute test_ports test_dto
     = (Ok [''a1'', ''a2''],
        [Publish test_batch,
         Save (rating_annotation\<lparr>publishedRecordId := Some (fake_record ''a1'')\<rparr>),
         Save (dyad_annotation\<lparr>publishedRecordId := Some (fake_record ''a2'')\<rparr>)])"
  proof -
    have "execute test_ports test_dto
     = (Ok (map annotationId
              [rating_annotation\<lparr>publishedRecordId := Some (fake_record ''a1'')\<rparr>,
               dyad_annotation\<lparr>publishedRecordId := Some (fake_record ''a2'')\<rparr>]),
        [Publish test_batch,
         Save (rating_annotation\<lparr>publishedRecordId := Some (fake_record ''a1'')\<rparr>),
         Save (dyad_annotation\<lparr>publishedRecordId := Some (fake_record ''a2'')\<rparr>)])"
      by (simp add: execute_def test_dto_def sel url built batch pub marked
            del: build_annotations.simps)
    then show ?thesis
      by (simp add: rating_annotation_def dyad_annotation_def)
  qed
  have p: "Publish test_batch \<in> set (snd (execute test_ports test_dto))"
    using run by simp
  have s: "Save (rating_annotation\<lparr>publishedRecordId := Some (fake_record ''a1'')\<rparr>)
             \<in> set (snd (execute test_ports test_dto))"
    using run by simp
  note inst = publishedRecordId_set_once [of test_ports test_dto]
  from inst p have 1: "\<forall>a \<in> set (annotations test_batch). publishedRecordId a = None"
    by blast
  from inst s obtain a0 r where
    h: "rating_annotation\<lparr>publishedRecordId := Some (fake_record ''a1'')\<rparr> = markAsPublished a0 r"
       "publishedRecordId (rating_annotation\<lparr>publishedRecordId := Some (fake_record ''a1'')\<rparr>)
          = Some r"
    by blast
  have "r = fake_record ''a1''" using h(2) by simp
  then have 2: "publishedRecordId
                  (rating_annotation\<lparr>publishedRecordId := Some (fake_record ''a1'')\<rparr>)
                    = Some (fake_record ''a1'')"
    using h(2) by simp
  show ?thesis using run 1 2 by (simp add: test_batch_def)
qed

end
